theory Spec2Isabelle
  imports Complex_Main
begin

section \<open>Strings of the JavaScript runtime\<close>

text \<open>
  A JavaScript string is modelled as a \<^typ>\<open>string\<close>, one \<^typ>\<open>char\<close> per code unit.
  Header values reach the program decoded as Latin-1, so the eight-bit characters of HOL
  cover them; \<open>toLowerCase\<close> and \<open>trim\<close> below are the Latin-1 part of the
  ECMAScript functions. A property that is \<open>undefined\<close> or \<open>null\<close> is \<open>None\<close>;
  the empty string is the only falsy string.
\<close>

type_synonym time = int \<comment> \<open>milliseconds since the epoch, the value of a \<open>Date\<close>\<close>

definition truthy :: "string option \<Rightarrow> bool" where
  "truthy v = (case v of None \<Rightarrow> False | Some s \<Rightarrow> s \<noteq> [])"

text \<open>\<open>a || b\<close> on optional strings, and \<open>a || 'literal'\<close>.\<close>

definition or_else :: "string option \<Rightarrow> string option \<Rightarrow> string option" where
  "or_else a b = (if truthy a then a else b)"

definition or_default :: "string option \<Rightarrow> string \<Rightarrow> string" where
  "or_default a d = (case a of None \<Rightarrow> d | Some s \<Rightarrow> if s = [] then d else s)"

text \<open>\<open>a || null\<close>: a falsy value becomes \<open>null\<close>.\<close>

definition or_null :: "string option \<Rightarrow> string option" where
  "or_null a = (if truthy a then a else None)"

fun starts_with :: "string \<Rightarrow> string \<Rightarrow> bool" where
  "starts_with s [] = True"
| "starts_with [] (n # ns) = False"
| "starts_with (c # cs) (n # ns) = (c = n \<and> starts_with cs ns)"

text \<open>\<open>String.prototype.includes\<close>: the needle occurs as a contiguous substring.\<close>

fun str_includes :: "string \<Rightarrow> string \<Rightarrow> bool" where
  "str_includes [] n = (n = [])"
| "str_includes (c # cs) n = (starts_with (c # cs) n \<or> str_includes cs n)"

definition lower_char :: "char \<Rightarrow> char" where
  "lower_char c =
     (let k = of_char c :: nat in
      if (65 \<le> k \<and> k \<le> 90) \<or> (192 \<le> k \<and> k \<le> 222 \<and> k \<noteq> 215)
      then char_of (k + 32) else c)"

definition toLowerCase :: "string \<Rightarrow> string" where
  "toLowerCase s = map lower_char s"

definition is_ws :: "char \<Rightarrow> bool" where
  "is_ws c = (of_char c \<in> {9, 10, 11, 12, 13, 32, 160 :: nat})"

definition trim :: "string \<Rightarrow> string" where
  "trim s = rev (dropWhile is_ws (rev (dropWhile is_ws s)))"

text \<open>\<open>s.split(',')[0]\<close>: the text before the first comma (the whole string without one).\<close>

definition split_first :: "string \<Rightarrow> string" where
  "split_first s = takeWhile (\<lambda>c. c \<noteq> CHR '','') s"

text \<open>\<open>Array.prototype.join\<close> on an array of strings.\<close>

fun join :: "string \<Rightarrow> string list \<Rightarrow> string" where
  "join sep [] = []"
| "join sep [x] = x"
| "join sep (x # y # ys) = x @ sep @ join sep (y # ys)"

section \<open>The audit logger\<close>

subsection \<open>Constants\<close>

text \<open>\<open>EVENT_TYPES\<close>.\<close>

definition LOGIN_SUCCESS :: string where "LOGIN_SUCCESS = ''LOGIN_SUCCESS''"
definition LOGIN_FAILED :: string where "LOGIN_FAILED = ''LOGIN_FAILED''"
definition LOGIN_LOCKED :: string where "LOGIN_LOCKED = ''LOGIN_LOCKED''"
definition LOGOUT :: string where "LOGOUT = ''LOGOUT''"
definition SESSION_EXPIRED :: string where "SESSION_EXPIRED = ''SESSION_EXPIRED''"
definition PASSWORD_CHANGE :: string where "PASSWORD_CHANGE = ''PASSWORD_CHANGE''"
definition PASSWORD_RESET :: string where "PASSWORD_RESET = ''PASSWORD_RESET''"
definition ACCOUNT_CREATED :: string where "ACCOUNT_CREATED = ''ACCOUNT_CREATED''"
definition ACCOUNT_DISABLED :: string where "ACCOUNT_DISABLED = ''ACCOUNT_DISABLED''"
definition ACCOUNT_ENABLED :: string where "ACCOUNT_ENABLED = ''ACCOUNT_ENABLED''"
definition ROLE_CHANGED :: string where "ROLE_CHANGED = ''ROLE_CHANGED''"
definition SUSPICIOUS_ACTIVITY :: string where "SUSPICIOUS_ACTIVITY = ''SUSPICIOUS_ACTIVITY''"

text \<open>\<open>EVENT_CATEGORIES\<close>.\<close>

definition AUTH :: string where "AUTH = ''AUTH''"
definition USER_MGMT :: string where "USER_MGMT = ''USER_MGMT''"
definition DATA_CHANGE :: string where "DATA_CHANGE = ''DATA_CHANGE''"
definition SYSTEM :: string where "SYSTEM = ''SYSTEM''"

text \<open>\<open>RISK_FACTORS\<close>.\<close>

definition FAILED_LOGIN :: int where "FAILED_LOGIN = 10"
definition MULTIPLE_FAILURES :: int where "MULTIPLE_FAILURES = 20"
definition UNUSUAL_IP :: int where "UNUSUAL_IP = 15"
definition UNUSUAL_HOURS :: int where "UNUSUAL_HOURS = 5"
definition ADMIN_ACCESS :: int where "ADMIN_ACCESS = 5"
definition SUSPICIOUS_USER_AGENT :: int where "SUSPICIOUS_USER_AGENT = 10"

subsection \<open>Requests\<close>

text \<open>
  The Express request, as far as the audit code reads it. \<open>headers\<close> is keyed by the
  lower-cased header name; \<open>http_method\<close> is \<open>req.method\<close>; \<open>query\<close> holds the parsed
  query string; \<open>body_days\<close> is the
  string form of the \<open>days\<close> member of the JSON body (the handlers only pass it to
  \<open>parseInt\<close>, which converts its argument to a string first); \<open>params_userid\<close> is the
  route parameter.
\<close>

record conn =
  remoteAddress :: "string option"

record request =
  ip :: "string option"
  connection :: "conn option"
  socket :: "conn option"
  headers :: "string \<rightharpoonup> string"
  http_method :: "string option"
  path :: "string option"
  originalUrl :: "string option"
  query :: "string \<rightharpoonup> string"
  body_days :: "string option"
  params_userid :: string

record client_info =
  ci_ip_address :: string
  ci_user_agent :: string
  ci_request_method :: string
  ci_request_path :: string

text \<open>\<open>req.connection?.remoteAddress\<close>.\<close>

definition remote_of :: "conn option \<Rightarrow> string option" where
  "remote_of c = (case c of None \<Rightarrow> None | Some k \<Rightarrow> remoteAddress k)"

text \<open>\<open>req.headers['x-forwarded-for']?.split(',')[0]?.trim()\<close>.\<close>

definition forwarded_first :: "request \<Rightarrow> string option" where
  "forwarded_first req =
     (case headers req ''x-forwarded-for'' of
        None \<Rightarrow> None
      | Some h \<Rightarrow> Some (trim (split_first h)))"

definition extractClientInfo :: "request \<Rightarrow> client_info" where
  "extractClientInfo req =
     (let clientIP =
            or_default
              (or_else (ip req)
                (or_else (remote_of (connection req))
                  (or_else (remote_of (socket req))
                    (or_else (forwarded_first req)
                      (headers req ''x-real-ip'')))))
              ''unknown'';
          userAgent = or_default (headers req ''user-agent'') ''unknown'';
          requestMethod = or_default (http_method req) ''unknown'';
          requestPath = or_default (or_else (path req) (originalUrl req)) ''unknown''
      in \<lparr> ci_ip_address = clientIP, ci_user_agent = userAgent,
           ci_request_method = requestMethod, ci_request_path = requestPath \<rparr>)"

subsection \<open>Event descriptions\<close>

text \<open>
  A value that \<open>JSON.stringify\<close> can be given as \<open>additional_data\<close>. Numbers are integers.
\<close>

datatype js_value =
    JNull
  | JBool bool
  | JNum int
  | JStr string
  | JArr "js_value list"
  | JObj "(string \<times> js_value) list"

fun js_truthy :: "js_value \<Rightarrow> bool" where
  "js_truthy JNull = False"
| "js_truthy (JBool b) = b"
| "js_truthy (JNum n) = (n \<noteq> 0)"
| "js_truthy (JStr s) = (s \<noteq> [])"
| "js_truthy (JArr xs) = True"
| "js_truthy (JObj kvs) = True"

datatype roles = RolesArray "string list" | RolesString string

text \<open>
  \<open>auditData\<close>, the caller's event description: every member but \<open>event_type\<close> may be
  absent. The members keep their names, with the prefix \<open>a_\<close>.
\<close>

record audit_data =
  a_event_type :: string
  a_event_category :: "string option"
  a_event_description :: "string option"
  a_userid :: "string option"
  a_attempted_userid :: "string option"
  a_user_roles :: "roles option"
  a_session_id :: "string option"
  a_success :: "bool option"
  a_error_code :: "string option"
  a_error_message :: "string option"
  a_additional_data :: "js_value option"
  a_server_name :: "string option"
  a_application_version :: "string option"
  a_event_timestamp :: "time option"

text \<open>
  \<open>eventData\<close>, the object \<open>logAuditEvent\<close> builds. The four request members are absent
  when no request is given; \<open>risk_score\<close> is absent until it is assigned.
\<close>

record event_data =
  event_type :: string
  event_category :: string
  event_description :: string
  userid :: "string option"
  attempted_userid :: "string option"
  user_roles :: "string option"
  session_id :: "string option"
  ip_address :: "string option"
  user_agent :: "string option"
  request_method :: "string option"
  request_path :: "string option"
  success :: bool
  error_code :: "string option"
  error_message :: "string option"
  additional_data :: "string option"
  server_name :: string
  application_version :: string
  event_timestamp :: time
  risk_score :: "int option"

subsection \<open>Errors and the runtime environment\<close>

datatype error = TypeError string | DbError string | OtherError string

fun message :: "error \<Rightarrow> string" where
  "message (TypeError m) = m"
| "message (DbError m) = m"
| "message (OtherError m) = m"

text \<open>
  What the code reads from its runtime: the clock (\<open>new Date()\<close> and its local hour),
  \<open>os.hostname()\<close>, the two environment variables, the store's \<open>NOW()\<close>, and the built-in
  functions \<open>JSON.stringify\<close> (which can throw), \<open>new Date(string)\<close> (\<open>None\<close> is an
  invalid date) and \<open>Date.prototype.toString\<close>.
\<close>

record env =
  now :: time
  local_hour :: nat
  hostname :: string
  APP_VERSION :: "string option"
  NODE_ENV :: "string option"
  db_now :: time
  json_stringify :: "js_value \<Rightarrow> error + string"
  parse_date :: "string \<Rightarrow> time option"
  date_toString :: "time \<Rightarrow> string"

subsection \<open>The risk score\<close>

definition calculateRiskScore :: "env \<Rightarrow> event_data \<Rightarrow> int" where
  "calculateRiskScore e eventData =
     (let score0 = 0;
          score1 = (if event_type eventData = LOGIN_FAILED then score0 + FAILED_LOGIN else score0);
          score2 =
            (if truthy (user_roles eventData) \<and>
                (str_includes (the (user_roles eventData)) ''SMS_SUPERADM'' \<or>
                 str_includes (the (user_roles eventData)) ''GRP_ADM'')
             then score1 + ADMIN_ACCESS else score1);
          userAgent = or_default (map_option toLowerCase (user_agent eventData)) [];
          score3 =
            (if str_includes userAgent ''bot'' \<or> str_includes userAgent ''crawler'' \<or>
                str_includes userAgent ''spider'' \<or> userAgent = ''unknown''
             then score2 + SUSPICIOUS_USER_AGENT else score2);
          hour = local_hour e;
          score4 = (if hour < 6 \<or> hour > 22 then score3 + UNUSUAL_HOURS else score3)
      in min score4 100)"

subsection \<open>Preparing the event\<close>

text \<open>The object literal \<open>eventData\<close> of \<open>logAuditEvent\<close>, before the score is assigned.\<close>

definition stringify_additional :: "env \<Rightarrow> js_value option \<Rightarrow> error + string option" where
  "stringify_additional e v =
     (case v of
        None \<Rightarrow> Inr None
      | Some j \<Rightarrow>
          if js_truthy j
          then (case json_stringify e j of Inl err \<Rightarrow> Inl err | Inr s \<Rightarrow> Inr (Some s))
          else Inr None)"

definition join_roles :: "roles option \<Rightarrow> string option" where
  "join_roles r =
     (case r of
        None \<Rightarrow> None
      | Some (RolesArray xs) \<Rightarrow> Some (join '','' xs)
      | Some (RolesString s) \<Rightarrow> or_null (Some s))"

definition prepareEventData ::
  "env \<Rightarrow> audit_data \<Rightarrow> request option \<Rightarrow> error + event_data" where
  "prepareEventData e auditData req =
     (let clientInfo = map_option extractClientInfo req in
      case stringify_additional e (a_additional_data auditData) of
        Inl err \<Rightarrow> Inl err
      | Inr additional \<Rightarrow>
          Inr \<lparr> event_type = a_event_type auditData,
                event_category = or_default (a_event_category auditData) AUTH,
                event_description =
                  or_default (a_event_description auditData) (a_event_type auditData @ '' event''),
                userid = or_null (a_userid auditData),
                attempted_userid =
                  or_null (or_else (a_attempted_userid auditData) (a_userid auditData)),
                user_roles = join_roles (a_user_roles auditData),
                session_id = or_null (a_session_id auditData),
                ip_address = map_option ci_ip_address clientInfo,
                user_agent = map_option ci_user_agent clientInfo,
                request_method = map_option ci_request_method clientInfo,
                request_path = map_option ci_request_path clientInfo,
                success = (case a_success auditData of None \<Rightarrow> False | Some b \<Rightarrow> b),
                error_code = or_null (a_error_code auditData),
                error_message = or_null (a_error_message auditData),
                additional_data = additional,
                server_name = or_default (a_server_name auditData) (hostname e),
                application_version =
                  or_default (or_else (a_application_version auditData) (APP_VERSION e)) ''1.0.0'',
                event_timestamp =
                  (case a_event_timestamp auditData of None \<Rightarrow> now e | Some t \<Rightarrow> t),
                risk_score = None \<rparr>)"

subsection \<open>The store\<close>

text \<open>
  The table \<open>public.audit_log\<close>: a row is the inserted event with the generated \<open>id\<close>
  and \<open>created_at\<close>. The store may fail any statement it is sent: \<open>faults\<close> says, for
  each coming statement in turn, whether it is served (\<open>None\<close>) or how it fails, and an
  exhausted list serves everything, so every behaviour of the store is some \<open>faults\<close>;
  a row the table would refuse for its content (an address that is no \<open>INET\<close>, a text
  too long for its column) is among them.
  \<open>queries\<close> counts the statements sent, and \<open>console\<close> is what was printed.
\<close>

datatype store_fault = Unreachable | Rejects | Failure

fun fault_error :: "store_fault \<Rightarrow> error" where
  "fault_error Unreachable = DbError ''connection refused''"
| "fault_error Rejects = DbError ''statement rejected''"
| "fault_error Failure = OtherError ''runtime failure''"

record row =
  row_id :: int
  ev :: event_data
  created_at :: time

datatype console_line = Log string | LogError string string

record state =
  table :: "row list"
  next_id :: int
  faults :: "store_fault option list"
  queries :: nat
  console :: "console_line list"

definition next_fault :: "state \<Rightarrow> store_fault option" where
  "next_fault s = (case faults s of [] \<Rightarrow> None | f # fs \<Rightarrow> f)"

text \<open>One statement goes to the store.\<close>

definition issue :: "state \<Rightarrow> state" where
  "issue s = s\<lparr> faults := tl (faults s), queries := Suc (queries s) \<rparr>"

definition print :: "console_line \<Rightarrow> state \<Rightarrow> state" where
  "print l s = s\<lparr> console := console s @ [l] \<rparr>"

text \<open>\<open>INSERT INTO public.audit_log (...) VALUES (...) RETURNING id, event_timestamp\<close>.\<close>

definition db_insert :: "env \<Rightarrow> event_data \<Rightarrow> state \<Rightarrow> (error + int \<times> time) \<times> state" where
  "db_insert e vals s =
     (case next_fault s of
        Some f \<Rightarrow> (Inl (fault_error f), issue s)
      | None \<Rightarrow>
          (Inr (next_id s, event_timestamp vals),
           (issue s)\<lparr> table := table s @ [\<lparr> row_id = next_id s, ev = vals, created_at = db_now e \<rparr>],
                      next_id := next_id s + 1 \<rparr>))"

subsection \<open>Writing an audit event\<close>

record audit_entry =
  entry_id :: int
  entry_timestamp :: time
  entry_event :: event_data

text \<open>
  The body of the \<open>try\<close> block: \<open>Inl\<close> is an exception thrown inside it. The result of
  \<open>logAuditEvent\<close> is \<open>Inr\<close> of what it returns (\<open>None\<close> is \<open>null\<close>), or \<open>Inl\<close> of an
  exception that leaves it.
\<close>

definition logAuditEvent_try ::
  "env \<Rightarrow> audit_data \<Rightarrow> request option \<Rightarrow> state \<Rightarrow> (error + audit_entry) \<times> state" where
  "logAuditEvent_try e auditData req s =
     (case prepareEventData e auditData req of
        Inl err \<Rightarrow> (Inl err, s)
      | Inr prepared \<Rightarrow>
          (let eventData = prepared\<lparr> risk_score := Some (calculateRiskScore e prepared) \<rparr>;
               s1 = print (Log (''DEBUG: Executing audit log query: '' @ event_type eventData)) s
           in case db_insert e eventData s1 of
                (Inl err, s2) \<Rightarrow> (Inl err, s2)
              | (Inr (i, t), s2) \<Rightarrow>
                  (Inr \<lparr> entry_id = i, entry_timestamp = t, entry_event = eventData \<rparr>,
                   print (Log (''Audit Log Created: '' @ event_type eventData)) s2)))"

definition logAuditEvent ::
  "env \<Rightarrow> audit_data \<Rightarrow> request option \<Rightarrow> state \<Rightarrow> (error + audit_entry option) \<times> state" where
  "logAuditEvent e auditData req s =
     (case logAuditEvent_try e auditData req s of
        (Inr entry, s') \<Rightarrow> (Inr (Some entry), s')
      | (Inl err, s') \<Rightarrow>
          (Inr None, print (LogError ''Failed to create audit log entry'' (message err)) s'))"

subsection \<open>Convenience functions\<close>

text \<open>An event description with only \<open>event_type\<close> set.\<close>

definition only_event_type :: "string \<Rightarrow> audit_data" where
  "only_event_type t =
     \<lparr> a_event_type = t, a_event_category = None, a_event_description = None,
       a_userid = None, a_attempted_userid = None, a_user_roles = None, a_session_id = None,
       a_success = None, a_error_code = None, a_error_message = None,
       a_additional_data = None, a_server_name = None, a_application_version = None,
       a_event_timestamp = None \<rparr>"

text \<open>The default parameter \<open>additionalData = {}\<close>.\<close>

definition additional_or_empty :: "js_value option \<Rightarrow> js_value" where
  "additional_or_empty a = (case a of None \<Rightarrow> JObj [] | Some j \<Rightarrow> j)"

definition loginSuccess_data :: "string \<Rightarrow> roles option \<Rightarrow> js_value option \<Rightarrow> audit_data" where
  "loginSuccess_data uid userRoles additionalData =
     (only_event_type LOGIN_SUCCESS)
       \<lparr> a_event_category := Some AUTH,
         a_event_description := Some (''User '' @ uid @ '' logged in successfully''),
         a_userid := Some uid,
         a_attempted_userid := Some uid,
         a_user_roles := userRoles,
         a_success := Some True,
         a_additional_data := Some (additional_or_empty additionalData) \<rparr>"

definition loginSuccess ::
  "env \<Rightarrow> string \<Rightarrow> roles option \<Rightarrow> request option \<Rightarrow> js_value option \<Rightarrow> state
     \<Rightarrow> (error + audit_entry option) \<times> state" where
  "loginSuccess e uid userRoles req additionalData s =
     logAuditEvent e (loginSuccess_data uid userRoles additionalData) req s"

definition loginFailed_data :: "string \<Rightarrow> string \<Rightarrow> js_value option \<Rightarrow> audit_data" where
  "loginFailed_data attemptedUserid reason additionalData =
     (only_event_type LOGIN_FAILED)
       \<lparr> a_event_category := Some AUTH,
         a_event_description :=
           Some (''Failed login attempt for user '' @ attemptedUserid @ '': '' @ reason),
         a_attempted_userid := Some attemptedUserid,
         a_success := Some False,
         a_error_message := Some reason,
         a_additional_data := Some (additional_or_empty additionalData) \<rparr>"

definition loginFailed ::
  "env \<Rightarrow> string \<Rightarrow> string \<Rightarrow> request option \<Rightarrow> js_value option \<Rightarrow> state
     \<Rightarrow> (error + audit_entry option) \<times> state" where
  "loginFailed e attemptedUserid reason req additionalData s =
     logAuditEvent e (loginFailed_data attemptedUserid reason additionalData) req s"

definition logout_data :: "string \<Rightarrow> roles option \<Rightarrow> js_value option \<Rightarrow> audit_data" where
  "logout_data uid userRoles additionalData =
     (only_event_type LOGOUT)
       \<lparr> a_event_category := Some AUTH,
         a_event_description := Some (''User '' @ uid @ '' logged out''),
         a_userid := Some uid,
         a_user_roles := userRoles,
         a_success := Some True,
         a_additional_data := Some (additional_or_empty additionalData) \<rparr>"

definition logout ::
  "env \<Rightarrow> string \<Rightarrow> roles option \<Rightarrow> request option \<Rightarrow> js_value option \<Rightarrow> state
     \<Rightarrow> (error + audit_entry option) \<times> state" where
  "logout e uid userRoles req additionalData s =
     logAuditEvent e (logout_data uid userRoles additionalData) req s"

definition accountLocked_data :: "string \<Rightarrow> string \<Rightarrow> js_value option \<Rightarrow> audit_data" where
  "accountLocked_data uid reason additionalData =
     (only_event_type LOGIN_LOCKED)
       \<lparr> a_event_category := Some AUTH,
         a_event_description := Some (''Account '' @ uid @ '' locked: '' @ reason),
         a_userid := Some uid,
         a_attempted_userid := Some uid,
         a_success := Some False,
         a_error_message := Some reason,
         a_additional_data := Some (additional_or_empty additionalData) \<rparr>"

definition accountLocked ::
  "env \<Rightarrow> string \<Rightarrow> string \<Rightarrow> request option \<Rightarrow> js_value option \<Rightarrow> state
     \<Rightarrow> (error + audit_entry option) \<times> state" where
  "accountLocked e uid reason req additionalData s =
     logAuditEvent e (accountLocked_data uid reason additionalData) req s"

definition suspiciousActivity_data :: "string \<Rightarrow> string \<Rightarrow> js_value option \<Rightarrow> audit_data" where
  "suspiciousActivity_data uid description additionalData =
     (only_event_type SUSPICIOUS_ACTIVITY)
       \<lparr> a_event_category := Some AUTH,
         a_event_description := Some description,
         a_userid := Some uid,
         a_success := Some False,
         a_error_message := Some ''Suspicious activity detected'',
         a_additional_data := Some (additional_or_empty additionalData) \<rparr>"

definition suspiciousActivity ::
  "env \<Rightarrow> string \<Rightarrow> string \<Rightarrow> request option \<Rightarrow> js_value option \<Rightarrow> state
     \<Rightarrow> (error + audit_entry option) \<times> state" where
  "suspiciousActivity e uid description req additionalData s =
     logAuditEvent e (suspiciousActivity_data uid description additionalData) req s"

text \<open>
  The built event read again as an event description: the same object passed back to
  \<open>logAuditEvent\<close>, which reads only the members of \<open>auditData\<close>.
\<close>

definition as_auditData :: "event_data \<Rightarrow> audit_data" where
  "as_auditData d =
     \<lparr> a_event_type = event_type d,
       a_event_category = Some (event_category d),
       a_event_description = Some (event_description d),
       a_userid = userid d,
       a_attempted_userid = attempted_userid d,
       a_user_roles = map_option RolesString (user_roles d),
       a_session_id = session_id d,
       a_success = Some (success d),
       a_error_code = error_code d,
       a_error_message = error_message d,
       a_additional_data = map_option JStr (additional_data d),
       a_server_name = Some (server_name d),
       a_application_version = Some (application_version d),
       a_event_timestamp = Some (event_timestamp d) \<rparr>"

section \<open>The audit log API\<close>

subsection \<open>Numbers\<close>

text \<open>
  The numbers the handlers compute with are doubles whose value is an integer, the two
  infinities and \<open>NaN\<close>. \<open>to_double\<close> is the double nearest to an integer (ties to the
  even significand, and to infinity from \<open>2^1024 - 2^970\<close> on): integers below \<open>2^53\<close> are
  themselves.
\<close>

datatype number = NaN | Num int | PosInf | NegInf

function bit_len :: "int \<Rightarrow> nat" where
  "bit_len a = (if a \<le> 0 then 0 else Suc (bit_len (a div 2)))"
  by pat_completeness auto
termination
  by (relation "measure nat") auto

definition to_double :: "int \<Rightarrow> number" where
  "to_double i =
     (let a = \<bar>i\<bar> in
      if a < 2 ^ 53 then Num i
      else (let ex = bit_len a - 53;
                q = a div 2 ^ ex;
                r = a mod 2 ^ ex;
                half = 2 ^ (ex - 1);
                q' = (if half < r \<or> (r = half \<and> odd q) then q + 1 else q);
                v = q' * 2 ^ ex
            in if 2 ^ 1024 \<le> v then (if i < 0 then NegInf else PosInf)
               else Num (if i < 0 then - v else v)))"

text \<open>
  \<open>parseInt\<close> with no radix: leading white space, an optional sign, an optional \<open>0x\<close>
  prefix, then the longest run of digits, read as an integer and rounded to a double;
  \<open>NaN\<close> when there is no digit.
\<close>

definition digit_val :: "char \<Rightarrow> nat option" where
  "digit_val c =
     (let k = of_char c :: nat in
      if 48 \<le> k \<and> k \<le> 57 then Some (k - 48)
      else if 97 \<le> k \<and> k \<le> 122 then Some (k - 87)
      else if 65 \<le> k \<and> k \<le> 90 then Some (k - 55)
      else None)"

definition is_digit_in :: "nat \<Rightarrow> char \<Rightarrow> bool" where
  "is_digit_in radix c = (case digit_val c of None \<Rightarrow> False | Some v \<Rightarrow> v < radix)"

definition digits_value :: "nat \<Rightarrow> string \<Rightarrow> int" where
  "digits_value radix ds = foldl (\<lambda>acc c. acc * int radix + int (the (digit_val c))) 0 ds"

definition parseInt :: "string \<Rightarrow> number" where
  "parseInt str =
     (let s = dropWhile is_ws str;
          neg = starts_with s ''-'';
          s1 = (if starts_with s ''-'' \<or> starts_with s ''+'' then tl s else s);
          hex = (starts_with s1 ''0x'' \<or> starts_with s1 ''0X'');
          radix = (if hex then 16 else 10);
          s2 = (if hex then drop 2 s1 else s1);
          ds = takeWhile (is_digit_in radix) s2
      in if ds = [] then NaN
         else to_double ((if neg then - 1 else 1) * digits_value radix ds))"

text \<open>\<open>Math.max(a, x)\<close> and \<open>Math.min(a, x)\<close> for an integer constant \<open>a\<close>.\<close>

fun Math_max :: "int \<Rightarrow> number \<Rightarrow> number" where
  "Math_max a NaN = NaN"
| "Math_max a (Num n) = Num (max a n)"
| "Math_max a PosInf = PosInf"
| "Math_max a NegInf = Num a"

fun Math_min :: "int \<Rightarrow> number \<Rightarrow> number" where
  "Math_min a NaN = NaN"
| "Math_min a (Num n) = Num (min a n)"
| "Math_min a PosInf = Num a"
| "Math_min a NegInf = NegInf"

text \<open>\<open>x - a\<close> for an integer constant \<open>a\<close>, and \<open>x * y\<close>: the exact result, rounded.\<close>

fun num_minus :: "number \<Rightarrow> int \<Rightarrow> number" where
  "num_minus (Num n) a = to_double (n - a)"
| "num_minus x a = x"

fun num_times :: "number \<Rightarrow> number \<Rightarrow> number" where
  "num_times NaN y = NaN"
| "num_times x NaN = NaN"
| "num_times (Num a) (Num b) = to_double (a * b)"
| "num_times (Num a) PosInf = (if a = 0 then NaN else if 0 < a then PosInf else NegInf)"
| "num_times (Num a) NegInf = (if a = 0 then NaN else if 0 < a then NegInf else PosInf)"
| "num_times PosInf (Num b) = (if b = 0 then NaN else if 0 < b then PosInf else NegInf)"
| "num_times NegInf (Num b) = (if b = 0 then NaN else if 0 < b then NegInf else PosInf)"
| "num_times PosInf PosInf = PosInf"
| "num_times PosInf NegInf = NegInf"
| "num_times NegInf PosInf = NegInf"
| "num_times NegInf NegInf = PosInf"

text \<open>\<open>x < y\<close>.\<close>

fun num_less :: "number \<Rightarrow> number \<Rightarrow> bool" where
  "num_less NaN y = False"
| "num_less x NaN = False"
| "num_less (Num a) (Num b) = (a < b)"
| "num_less x PosInf = (x \<noteq> PosInf)"
| "num_less NegInf y = (y \<noteq> NegInf)"
| "num_less x y = False"

text \<open>A query or body member with a numeric default, passed to \<open>parseInt\<close>.\<close>

definition parseInt_or :: "int \<Rightarrow> string option \<Rightarrow> number" where
  "parseInt_or d v = (case v of None \<Rightarrow> Num d | Some str \<Rightarrow> parseInt str)"

text \<open>The decimal digits of an integer.\<close>

function show_digits :: "int \<Rightarrow> string" where
  "show_digits n =
     (if n < 10 then [char_of (48 + n)]
      else show_digits (n div 10) @ [char_of (48 + n mod 10)])"
  by pat_completeness auto
termination
  by (relation "measure nat") auto

definition show_int :: "int \<Rightarrow> string" where
  "show_int i = (if i < 0 then CHR ''-'' # show_digits (- i) else show_digits i)"

text \<open>
  The text of a number (\<open>Number::toString\<close>), in a template literal or as a statement's
  parameter: the decimal with the fewest significant digits that reads back as the same
  double, the nearest to it when there are several; it is written in full up to 21 digits
  and with an exponent beyond. An integer below \<open>2^53\<close> is written with all its digits.
  \<open>shortest m a\<close> looks for that decimal among the multiples of \<open>10^m\<close>, then of
  \<open>10^(m-1)\<close>, and so on down to \<open>a\<close> itself.
\<close>

fun shortest :: "nat \<Rightarrow> int \<Rightarrow> int" where
  "shortest 0 a = a"
| "shortest (Suc m) a =
     (let p = 10 ^ Suc m;
          lo = (a div p) * p;
          hi = lo + p;
          lo_ok = (to_double lo = to_double a);
          hi_ok = (to_double hi = to_double a)
      in if lo_ok \<and> hi_ok
         then (if a - lo < hi - a then lo
               else if hi - a < a - lo then hi
               else if even (a div p) then lo else hi)
         else if lo_ok then lo
         else if hi_ok then hi
         else shortest m a)"

definition number_digits :: "int \<Rightarrow> string" where
  "number_digits a =
     (let cs = show_digits (shortest (length (show_digits a) - 1) a);
          n = length cs
      in if n \<le> 21 then cs
         else (let sig = rev (dropWhile (\<lambda>c. c = CHR ''0'') (rev cs))
               in hd sig # (if tl sig = [] then [] else CHR ''.'' # tl sig) @
                  ''e+'' @ show_digits (int n - 1)))"

fun number_text :: "number \<Rightarrow> string" where
  "number_text NaN = ''NaN''"
| "number_text (Num n) = (if n < 0 then CHR ''-'' # number_digits (- n) else number_digits n)"
| "number_text PosInf = ''Infinity''"
| "number_text NegInf = ''-Infinity''"

text \<open>The integer of a number that a statement has accepted.\<close>

fun int_of :: "number \<Rightarrow> int" where
  "int_of (Num n) = n"
| "int_of x = 0"

subsection \<open>Statements and their meaning\<close>

text \<open>
  \<open>LIKE\<close> patterns: \<open>%\<close> matches any run of characters, \<open>_\<close> any one character, and a
  backslash takes the next character literally. \<open>ILIKE\<close> compares without regard to case.
\<close>

fun like_match :: "string \<Rightarrow> string \<Rightarrow> bool" where
  "like_match [] t = (t = [])"
| "like_match (p # ps) [] = (p = CHR ''%'' \<and> like_match ps [])"
| "like_match (p # ps) (c # cs) =
     (if p = CHR ''%'' then like_match ps (c # cs) \<or> like_match (p # ps) cs
      else if p = CHR ''_'' then like_match ps cs
      else if p = CHR 0x5C then
        (case ps of [] \<Rightarrow> False | q # qs \<Rightarrow> q = c \<and> like_match qs cs)
      else p = c \<and> like_match ps cs)"

definition ilike :: "string option \<Rightarrow> string \<Rightarrow> bool" where
  "ilike col pat =
     (case col of None \<Rightarrow> False | Some t \<Rightarrow> like_match (toLowerCase pat) (toLowerCase t))"

text \<open>
  What the store accepts as a parameter. A text has no NUL character. A number is sent as
  its text and read in the type of its place: \<open>INTEGER\<close> for the risk score, \<open>BIGINT\<close>
  and not negative for \<open>LIMIT\<close> and \<open>OFFSET\<close>; \<open>NaN\<close>, the infinities and a number out
  of range are rejected. The text of a number below \<open>2^53\<close> is the number; the text of a
  larger one is a decimal that rounds to it, which lies on the same side of the \<open>BIGINT\<close>
  bound and, as an \<open>OFFSET\<close>, as far beyond the length of any table. A time lies in the
  range of \<open>TIMESTAMPTZ\<close>, from 4714-11-24 BC up to the year 294277.
\<close>

definition text_ok :: "string \<Rightarrow> bool" where
  "text_ok x = (CHR 0x00 \<notin> set x)"

definition int4_ok :: "number \<Rightarrow> bool" where
  "int4_ok x = (case x of Num n \<Rightarrow> - 2147483648 \<le> n \<and> n \<le> 2147483647 | _ \<Rightarrow> False)"

definition bigint_ok :: "number \<Rightarrow> bool" where
  "bigint_ok x = (case x of Num n \<Rightarrow> 0 \<le> n \<and> n \<le> 9223372036854775807 | _ \<Rightarrow> False)"

definition MIN_TIMESTAMP :: time where
  "MIN_TIMESTAMP = - 210866803200000"

definition END_TIMESTAMP :: time where
  "END_TIMESTAMP = 9224318016000000"

definition timestamp_ok :: "time \<Rightarrow> bool" where
  "timestamp_ok t = (MIN_TIMESTAMP \<le> t \<and> t < END_TIMESTAMP)"

text \<open>
  \<open>ip_address::text\<close>: the text of an \<open>INET\<close> value always carries the length of the
  mask, 32 for an IPv4 host and 128 for an IPv6 host. The address of a row is written the
  way the store writes it.
\<close>

definition inet_text :: "string \<Rightarrow> string" where
  "inet_text a =
     (if CHR ''/'' \<in> set a then a
      else if CHR '':'' \<in> set a then a @ ''/128''
      else a @ ''/32'')"

text \<open>
  The conditions the handlers put in a \<open>WHERE\<close> clause, each with its bound parameter. A
  date parameter is \<open>None\<close> for an invalid date. The store rejects a statement with a
  parameter it does not accept.
\<close>

datatype cond =
    Event_type_eq string
  | Userid_ilike string
  | Success_eq bool
  | Timestamp_ge "time option"
  | Timestamp_le "time option"
  | Ip_ilike string
  | Risk_ge number
  | Search_ilike string

fun cond_ok :: "cond \<Rightarrow> bool" where
  "cond_ok (Event_type_eq t) = text_ok t"
| "cond_ok (Userid_ilike p) = text_ok p"
| "cond_ok (Success_eq b) = True"
| "cond_ok (Timestamp_ge d) = (case d of None \<Rightarrow> False | Some t \<Rightarrow> timestamp_ok t)"
| "cond_ok (Timestamp_le d) = (case d of None \<Rightarrow> False | Some t \<Rightarrow> timestamp_ok t)"
| "cond_ok (Ip_ilike p) = text_ok p"
| "cond_ok (Risk_ge x) = int4_ok x"
| "cond_ok (Search_ilike p) = text_ok p"

fun holds :: "cond \<Rightarrow> row \<Rightarrow> bool" where
  "holds (Event_type_eq t) r = (event_type (ev r) = t)"
| "holds (Userid_ilike p) r = (ilike (userid (ev r)) p \<or> ilike (attempted_userid (ev r)) p)"
| "holds (Success_eq b) r = (success (ev r) = b)"
| "holds (Timestamp_ge d) r = (case d of None \<Rightarrow> False | Some t \<Rightarrow> t \<le> event_timestamp (ev r))"
| "holds (Timestamp_le d) r = (case d of None \<Rightarrow> False | Some t \<Rightarrow> event_timestamp (ev r) \<le> t)"
| "holds (Ip_ilike p) r = ilike (map_option inet_text (ip_address (ev r))) p"
| "holds (Risk_ge x) r =
     (case (x, risk_score (ev r)) of (Num k, Some v) \<Rightarrow> k \<le> v | _ \<Rightarrow> False)"
| "holds (Search_ilike p) r =
     (ilike (Some (event_description (ev r))) p \<or> ilike (userid (ev r)) p \<or>
      ilike (attempted_userid (ev r)) p \<or> ilike (error_message (ev r)) p \<or>
      ilike (user_agent (ev r)) p)"

definition where_clause :: "cond list \<Rightarrow> row \<Rightarrow> bool" where
  "where_clause cs r = list_all (\<lambda>c. holds c r) cs"

text \<open>
  \<open>ORDER BY k DESC\<close>. Rows with equal keys come in the order of the input (the store is
  free to return them in any order).
\<close>

definition order_desc :: "('a \<Rightarrow> 'k::linorder) \<Rightarrow> 'a list \<Rightarrow> 'a list" where
  "order_desc k rs = rev (sort_key k (rev rs))"

text \<open>
  A reading statement: the store fails it, rejects its parameters, or computes the result
  from the table. The rows come back whole: only the export's column list is modelled.
\<close>

definition db_read :: "bool \<Rightarrow> (row list \<Rightarrow> 'a) \<Rightarrow> state \<Rightarrow> (error + 'a) \<times> state" where
  "db_read params_ok f s =
     (case next_fault s of
        Some flt \<Rightarrow> (Inl (fault_error flt), issue s)
      | None \<Rightarrow>
          if params_ok then (Inr (f (table s)), issue s)
          else (Inl (DbError ''invalid input syntax''), issue s))"

definition day_ms :: int where
  "day_ms = 86400000"

text \<open>\<open>event_timestamp >= NOW() - INTERVAL 'n days'\<close>.\<close>

definition in_window :: "env \<Rightarrow> int \<Rightarrow> row \<Rightarrow> bool" where
  "in_window e n r = (db_now e - n * day_ms \<le> event_timestamp (ev r))"

text \<open>
  The store can compute \<open>NOW() - INTERVAL 'n days'\<close>: the text of \<open>n\<close> is an integer that
  fits the 32-bit day field of an interval, and the result is a time of the store.
\<close>

definition interval_ok :: "env \<Rightarrow> number \<Rightarrow> bool" where
  "interval_ok e x =
     (case x of
        Num n \<Rightarrow> - 2147483648 \<le> n \<and> n \<le> 2147483647 \<and> timestamp_ok (db_now e - n * day_ms)
      | _ \<Rightarrow> False)"

text \<open>\<open>DELETE FROM public.audit_log WHERE event_timestamp < NOW() - INTERVAL 'n days'\<close>.\<close>

definition db_delete_older :: "env \<Rightarrow> number \<Rightarrow> state \<Rightarrow> (error + nat) \<times> state" where
  "db_delete_older e daysNum s =
     (case next_fault s of
        Some flt \<Rightarrow> (Inl (fault_error flt), issue s)
      | None \<Rightarrow>
          if interval_ok e daysNum
          then (let kept = filter (in_window e (int_of daysNum)) (table s)
                in (Inr (length (table s) - length kept), (issue s)\<lparr> table := kept \<rparr>))
          else (Inl (DbError ''invalid interval''), issue s))"

subsection \<open>Responses\<close>

record pagination =
  current_page :: number
  per_page :: number
  total_records :: number
  total_pages :: number
  has_next :: bool
  has_previous :: bool

record summary =
  total_events :: nat
  successful_events :: nat
  failed_events :: nat
  successful_logins :: nat
  failed_logins :: nat
  unique_users :: nat
  unique_ips :: nat
  avg_risk_score :: "rat option"
  max_risk_score :: "int option"
  high_risk_events :: nat

record user_summary =
  u_total_events :: nat
  u_successful_events :: nat
  u_failed_events :: nat
  u_avg_risk_score :: "rat option"
  u_last_activity :: "time option"
  u_unique_ips :: nat

datatype response =
    Http_error nat string
  | Server_error string string
  | List_ok "row list" pagination "string option list"
  | Summary_ok summary "(string \<times> nat) list" "(string \<times> nat) list" "row list" number
  | User_ok string "row list" user_summary number
  | Cleanup_ok string nat number
  | Export_empty
  | Export_csv string

text \<open>
  \<open>process.env.NODE_ENV === 'development' ? error.message : 'Internal server error'\<close>.
\<close>

definition error_detail :: "env \<Rightarrow> error \<Rightarrow> string" where
  "error_detail e err =
     (if NODE_ENV e = Some ''development'' then message err else ''Internal server error'')"

text \<open>A value in a template literal.\<close>

definition template :: "string option \<Rightarrow> string" where
  "template v = (case v of None \<Rightarrow> ''undefined'' | Some s \<Rightarrow> s)"

subsection \<open>The middleware\<close>

text \<open>
  \<open>requireAdmin\<close> answers 403 or calls \<open>next\<close>, the handler, with \<open>req.adminUser\<close> set to
  the \<open>x-user-id\<close> header. The result of a route is \<open>Inr\<close> of the response sent, or \<open>Inl\<close>
  of an exception that leaves the handler.
\<close>

definition requireAdmin ::
  "request \<Rightarrow> (string option \<Rightarrow> state \<Rightarrow> (error + response) \<times> state) \<Rightarrow> state
     \<Rightarrow> (error + response) \<times> state" where
  "requireAdmin req next s =
     (let userRole = headers req ''x-user-role'';
          userId = headers req ''x-user-id''
      in if \<not> truthy userRole \<or> \<not> str_includes (the userRole) ''SMS_SUPERADM''
         then (Inr (Http_error 403 ''Administrative access required''), s)
         else next userId s)"

subsection \<open>Listing\<close>

definition when_set :: "string option \<Rightarrow> (string \<Rightarrow> cond) \<Rightarrow> cond list" where
  "when_set v f = (case v of None \<Rightarrow> [] | Some x \<Rightarrow> if x = [] then [] else [f x])"

definition list_conditions :: "env \<Rightarrow> request \<Rightarrow> cond list" where
  "list_conditions e req =
     when_set (query req ''event_type'') Event_type_eq @
     when_set (query req ''userid'') (\<lambda>u. Userid_ilike (''%'' @ u @ ''%'')) @
     (case query req ''success'' of None \<Rightarrow> [] | Some v \<Rightarrow> [Success_eq (v = ''true'')]) @
     when_set (query req ''start_date'') (\<lambda>d. Timestamp_ge (parse_date e d)) @
     when_set (query req ''end_date'') (\<lambda>d. Timestamp_le (parse_date e d)) @
     when_set (query req ''ip_address'') (\<lambda>i. Ip_ilike (''%'' @ i @ ''%'')) @
     when_set (query req ''risk_score_min'') (\<lambda>n. Risk_ge (parseInt n)) @
     when_set (query req ''search'') (\<lambda>x. Search_ilike (''%'' @ x @ ''%''))"

definition by_timestamp :: "row \<Rightarrow> int" where
  "by_timestamp r = event_timestamp (ev r)"

text \<open>
  \<open>Math.ceil(totalRecords / limitNum)\<close>, where \<open>totalRecords\<close> is a count and \<open>limitNum\<close>
  is \<open>NaN\<close> or from 1 to 500: the quotient of the doubles, rounded up. For a count below
  \<open>2^53\<close>, as any table's is, the rounding of the division never falls back to the integer
  below, and the result is the exact one.
\<close>

definition ceil_div :: "int \<Rightarrow> int \<Rightarrow> int" where
  "ceil_div a b = - ((- a) div b)"

fun Math_ceil_quot :: "number \<Rightarrow> number \<Rightarrow> number" where
  "Math_ceil_quot (Num a) (Num b) = (if 0 < b then Num (ceil_div a b) else NaN)"
| "Math_ceil_quot PosInf (Num b) = (if 0 < b then PosInf else NaN)"
| "Math_ceil_quot x y = NaN"

text \<open>\<open>LIMIT n\<close> and \<open>OFFSET n\<close> on the rows of a result.\<close>

fun limit_rows :: "int \<Rightarrow> 'a list \<Rightarrow> 'a list" where
  "limit_rows n [] = []"
| "limit_rows n (x # xs) = (if n \<le> 0 then [] else x # limit_rows (n - 1) xs)"

fun offset_rows :: "int \<Rightarrow> 'a list \<Rightarrow> 'a list" where
  "offset_rows n [] = []"
| "offset_rows n (x # xs) = (if n \<le> 0 then x # xs else offset_rows (n - 1) xs)"

definition filters_applied :: "request \<Rightarrow> string option list" where
  "filters_applied req =
     map (query req)
       [''event_type'', ''userid'', ''success'', ''start_date'', ''end_date'', ''ip_address'',
        ''risk_score_min'', ''search'']"

definition list_try :: "env \<Rightarrow> request \<Rightarrow> state \<Rightarrow> (error + response) \<times> state" where
  "list_try e req s =
     (let pageNum = Math_max 1 (parseInt_or 1 (query req ''page''));
          limitNum = Math_min 500 (Math_max 1 (parseInt_or 50 (query req ''limit'')));
          offset = num_times (num_minus pageNum 1) limitNum;
          conditions = list_conditions e req
      in case db_read (list_all cond_ok conditions)
                (\<lambda>t. length (filter (where_clause conditions) t)) s of
           (Inl err, s1) \<Rightarrow> (Inl err, s1)
         | (Inr count, s1) \<Rightarrow>
             (let totalRecords = to_double (int count)
              in case db_read (list_all cond_ok conditions \<and> bigint_ok limitNum \<and> bigint_ok offset)
                     (\<lambda>t. limit_rows (int_of limitNum)
                            (offset_rows (int_of offset)
                              (order_desc by_timestamp (filter (where_clause conditions) t)))) s1 of
                (Inl err, s2) \<Rightarrow> (Inl err, s2)
              | (Inr rows, s2) \<Rightarrow>
                  (let totalPages = Math_ceil_quot totalRecords limitNum
                   in (Inr (List_ok rows
                             \<lparr> current_page = pageNum, per_page = limitNum,
                               total_records = totalRecords, total_pages = totalPages,
                               has_next = num_less pageNum totalPages,
                               has_previous = num_less (Num 1) pageNum \<rparr>
                             (filters_applied req)), s2))))"

definition list_handler :: "env \<Rightarrow> request \<Rightarrow> state \<Rightarrow> (error + response) \<times> state" where
  "list_handler e req s =
     (case list_try e req s of
        (Inr r, s') \<Rightarrow> (Inr r, s')
      | (Inl err, s') \<Rightarrow>
          (Inr (Server_error ''Failed to retrieve audit logs'' (error_detail e err)),
           print (LogError ''Error fetching audit logs'' (message err)) s'))"

definition route_list :: "env \<Rightarrow> request \<Rightarrow> state \<Rightarrow> (error + response) \<times> state" where
  "route_list e req s = requireAdmin req (\<lambda>adminUser. list_handler e req) s"

subsection \<open>Summary statistics\<close>

definition avg :: "int list \<Rightarrow> rat option" where
  "avg xs = (if xs = [] then None else Some (of_int (sum_list xs) / of_int (int (length xs))))"

definition maximum :: "int list \<Rightarrow> int option" where
  "maximum xs = (case xs of [] \<Rightarrow> None | x # ys \<Rightarrow> Some (fold max ys x))"

definition risk_above :: "int \<Rightarrow> row \<Rightarrow> bool" where
  "risk_above n r = (case risk_score (ev r) of None \<Rightarrow> False | Some v \<Rightarrow> n < v)"

definition by_risk :: "row \<Rightarrow> int" where
  "by_risk r = (case risk_score (ev r) of None \<Rightarrow> 0 | Some v \<Rightarrow> v)"

text \<open>\<open>GROUP BY k\<close> with \<open>COUNT(*)\<close>.\<close>

definition group_count :: "string list \<Rightarrow> (string \<times> nat) list" where
  "group_count ks = map (\<lambda>k. (k, count_list ks k)) (remdups ks)"

definition summary_of :: "row list \<Rightarrow> summary" where
  "summary_of rs =
     \<lparr> total_events = length rs,
       successful_events = length (filter (\<lambda>r. success (ev r)) rs),
       failed_events = length (filter (\<lambda>r. \<not> success (ev r)) rs),
       successful_logins = length (filter (\<lambda>r. event_type (ev r) = ''LOGIN_SUCCESS'') rs),
       failed_logins = length (filter (\<lambda>r. event_type (ev r) = ''LOGIN_FAILED'') rs),
       unique_users = length (remdups (List.map_filter (\<lambda>r. userid (ev r)) rs)),
       unique_ips = length (remdups (List.map_filter (\<lambda>r. ip_address (ev r)) rs)),
       avg_risk_score = avg (List.map_filter (\<lambda>r. risk_score (ev r)) rs),
       max_risk_score = maximum (List.map_filter (\<lambda>r. risk_score (ev r)) rs),
       high_risk_events = length (filter (risk_above 50) rs) \<rparr>"

definition summary_try :: "env \<Rightarrow> request \<Rightarrow> state \<Rightarrow> (error + response) \<times> state" where
  "summary_try e req s =
     (let daysNum = Math_min 365 (Math_max 1 (parseInt_or 7 (query req ''days'')));
          ok = interval_ok e daysNum;
          window = filter (in_window e (int_of daysNum))
      in case db_read ok (\<lambda>t. summary_of (window t)) s of
           (Inl err, s1) \<Rightarrow> (Inl err, s1)
         | (Inr summaryResult, s1) \<Rightarrow>
         (case db_read ok
                 (\<lambda>t. order_desc snd (group_count (map (\<lambda>r. event_type (ev r)) (window t)))) s1 of
           (Inl err, s2) \<Rightarrow> (Inl err, s2)
         | (Inr eventTypesResult, s2) \<Rightarrow>
         (case db_read ok
                 (\<lambda>t. take 10 (order_desc snd (group_count
                        (List.map_filter (\<lambda>r. ip_address (ev r))
                          (filter (\<lambda>r. \<not> success (ev r)) (window t)))))) s2 of
           (Inl err, s3) \<Rightarrow> (Inl err, s3)
         | (Inr topFailedIPsResult, s3) \<Rightarrow>
         (case db_read ok
                 (\<lambda>t. take 10 (order_desc by_risk (order_desc by_timestamp
                        (filter (risk_above 30) (window t))))) s3 of
           (Inl err, s4) \<Rightarrow> (Inl err, s4)
         | (Inr highRiskResult, s4) \<Rightarrow>
             (Inr (Summary_ok summaryResult eventTypesResult topFailedIPsResult highRiskResult
                    daysNum), s4)))))"

definition summary_handler :: "env \<Rightarrow> request \<Rightarrow> state \<Rightarrow> (error + response) \<times> state" where
  "summary_handler e req s =
     (case summary_try e req s of
        (Inr r, s') \<Rightarrow> (Inr r, s')
      | (Inl err, s') \<Rightarrow>
          (Inr (Server_error ''Failed to generate summary'' (error_detail e err)),
           print (LogError ''Error generating audit log summary'' (message err)) s'))"

definition route_summary :: "env \<Rightarrow> request \<Rightarrow> state \<Rightarrow> (error + response) \<times> state" where
  "route_summary e req s = requireAdmin req (\<lambda>adminUser. summary_handler e req) s"

subsection \<open>Per-user history\<close>

definition for_user :: "string \<Rightarrow> row \<Rightarrow> bool" where
  "for_user u r = (userid (ev r) = Some u \<or> attempted_userid (ev r) = Some u)"

definition user_summary_of :: "row list \<Rightarrow> user_summary" where
  "user_summary_of rs =
     \<lparr> u_total_events = length rs,
       u_successful_events = length (filter (\<lambda>r. success (ev r)) rs),
       u_failed_events = length (filter (\<lambda>r. \<not> success (ev r)) rs),
       u_avg_risk_score = avg (List.map_filter (\<lambda>r. risk_score (ev r)) rs),
       u_last_activity = maximum (map by_timestamp rs),
       u_unique_ips = length (remdups (List.map_filter (\<lambda>r. ip_address (ev r)) rs)) \<rparr>"

definition user_try :: "env \<Rightarrow> request \<Rightarrow> state \<Rightarrow> (error + response) \<times> state" where
  "user_try e req s =
     (let uid = params_userid req;
          limitNum = Math_min 500 (Math_max 1 (parseInt_or 100 (query req ''limit'')));
          daysNum = Math_min 365 (Math_max 1 (parseInt_or 30 (query req ''days'')));
          matching = filter (\<lambda>r. for_user uid r \<and> in_window e (int_of daysNum) r)
      in case db_read (text_ok uid \<and> interval_ok e daysNum \<and> bigint_ok limitNum)
                (\<lambda>t. limit_rows (int_of limitNum) (order_desc by_timestamp (matching t))) s of
           (Inl err, s1) \<Rightarrow> (Inl err, s1)
         | (Inr rows, s1) \<Rightarrow>
             (case db_read (text_ok uid \<and> interval_ok e daysNum)
                     (\<lambda>t. user_summary_of (matching t)) s1 of
                (Inl err, s2) \<Rightarrow> (Inl err, s2)
              | (Inr summaryResult, s2) \<Rightarrow>
                  (Inr (User_ok uid rows summaryResult daysNum), s2)))"

definition user_handler :: "env \<Rightarrow> request \<Rightarrow> state \<Rightarrow> (error + response) \<times> state" where
  "user_handler e req s =
     (case user_try e req s of
        (Inr r, s') \<Rightarrow> (Inr r, s')
      | (Inl err, s') \<Rightarrow>
          (Inr (Server_error ''Failed to retrieve user audit logs'' (error_detail e err)),
           print (LogError ''Error fetching user audit logs'' (message err)) s'))"

definition route_user :: "env \<Rightarrow> request \<Rightarrow> state \<Rightarrow> (error + response) \<times> state" where
  "route_user e req s = requireAdmin req (\<lambda>adminUser. user_handler e req) s"

subsection \<open>Retention cleanup\<close>

text \<open>\<open>JSON.stringify\<close> writes \<open>NaN\<close> and the infinities as \<open>null\<close>.\<close>

definition json_number :: "number \<Rightarrow> js_value" where
  "json_number x = (case x of Num n \<Rightarrow> JNum n | _ \<Rightarrow> JNull)"

definition cleanup_started :: "string option \<Rightarrow> number \<Rightarrow> audit_data" where
  "cleanup_started adminUser daysNum =
     (only_event_type ''AUDIT_CLEANUP'')
       \<lparr> a_event_category := Some ''SYSTEM'',
         a_event_description := Some (''Audit log cleanup initiated by '' @ template adminUser),
         a_userid := adminUser,
         a_success := Some True,
         a_additional_data :=
           Some (JObj [(''retention_days'', json_number daysNum)]) \<rparr>"

definition cleanup_failed :: "string option \<Rightarrow> error \<Rightarrow> audit_data" where
  "cleanup_failed adminUser err =
     (only_event_type ''AUDIT_CLEANUP'')
       \<lparr> a_event_category := Some ''SYSTEM'',
         a_event_description := Some ''Audit log cleanup failed'',
         a_userid := adminUser,
         a_success := Some False,
         a_error_message := Some (message err) \<rparr>"

text \<open>\<open>const daysNum = Math.max(30, parseInt(days))\<close>, with \<open>days = 365\<close> by default.\<close>

definition cleanup_daysNum :: "request \<Rightarrow> number" where
  "cleanup_daysNum req = Math_max 30 (parseInt_or 365 (body_days req))"

definition cleanup_try ::
  "env \<Rightarrow> request \<Rightarrow> string option \<Rightarrow> state \<Rightarrow> (error + response) \<times> state" where
  "cleanup_try e req adminUser s =
     (let daysNum = cleanup_daysNum req
      in case logAuditEvent e (cleanup_started adminUser daysNum) (Some req) s of
           (Inl err, s1) \<Rightarrow> (Inl err, s1)
         | (Inr logged, s1) \<Rightarrow>
             (case db_delete_older e daysNum s1 of
                (Inl err, s2) \<Rightarrow> (Inl err, s2)
              | (Inr rowCount, s2) \<Rightarrow>
                  (Inr (Cleanup_ok
                         (''Cleaned up audit logs older than '' @ number_text daysNum @ '' days'')
                         rowCount daysNum), s2)))"

definition cleanup_handler ::
  "env \<Rightarrow> request \<Rightarrow> string option \<Rightarrow> state \<Rightarrow> (error + response) \<times> state" where
  "cleanup_handler e req adminUser s =
     (case cleanup_try e req adminUser s of
        (Inr r, s') \<Rightarrow> (Inr r, s')
      | (Inl err, s') \<Rightarrow>
          (case logAuditEvent e (cleanup_failed adminUser err) (Some req)
                  (print (LogError ''Error cleaning up audit logs'' (message err)) s') of
             (Inl err2, s'') \<Rightarrow> (Inl err2, s'')
           | (Inr logged, s'') \<Rightarrow>
               (Inr (Server_error ''Failed to cleanup audit logs'' (error_detail e err)), s'')))"

definition route_cleanup :: "env \<Rightarrow> request \<Rightarrow> state \<Rightarrow> (error + response) \<times> state" where
  "route_cleanup e req s = requireAdmin req (cleanup_handler e req) s"

subsection \<open>CSV export\<close>

definition export_conditions :: "env \<Rightarrow> request \<Rightarrow> cond list" where
  "export_conditions e req =
     when_set (query req ''start_date'') (\<lambda>d. Timestamp_ge (parse_date e d)) @
     when_set (query req ''end_date'') (\<lambda>d. Timestamp_le (parse_date e d)) @
     when_set (query req ''event_type'') Event_type_eq"

text \<open>The \<open>SELECT ... ORDER BY event_timestamp DESC LIMIT 10000\<close> of the export.\<close>

definition export_query :: "env \<Rightarrow> request \<Rightarrow> state \<Rightarrow> (error + row list) \<times> state" where
  "export_query e req s =
     (let whereConditions = export_conditions e req
      in db_read (list_all cond_ok whereConditions)
           (\<lambda>t. take 10000 (order_desc by_timestamp (filter (where_clause whereConditions) t))) s)"

datatype cell = CNull | CStr string | CBool bool | CNum int | CDate time

definition opt_cell :: "string option \<Rightarrow> cell" where
  "opt_cell v = (case v of None \<Rightarrow> CNull | Some x \<Rightarrow> CStr x)"

text \<open>A result row of the export: its ten columns, in the order of the \<open>SELECT\<close>.\<close>

definition export_row :: "row \<Rightarrow> (string \<times> cell) list" where
  "export_row r =
     [(''event_timestamp'', CDate (event_timestamp (ev r))),
      (''event_type'', CStr (event_type (ev r))),
      (''userid'', opt_cell (userid (ev r))),
      (''attempted_userid'', opt_cell (attempted_userid (ev r))),
      (''success'', CBool (success (ev r))),
      (''ip_address'', opt_cell (ip_address (ev r))),
      (''user_agent'', opt_cell (user_agent (ev r))),
      (''error_message'', opt_cell (error_message (ev r))),
      (''risk_score'', case risk_score (ev r) of None \<Rightarrow> CNull | Some v \<Rightarrow> CNum v),
      (''event_description'', CStr (event_description (ev r)))]"

text \<open>\<open>String(value)\<close>.\<close>

fun to_String :: "env \<Rightarrow> cell \<Rightarrow> string" where
  "to_String e CNull = ''null''"
| "to_String e (CStr x) = x"
| "to_String e (CBool b) = (if b then ''true'' else ''false'')"
| "to_String e (CNum n) = show_int n"
| "to_String e (CDate t) = date_toString e t"

text \<open>\<open>stringValue.replace(/"/g, '""')\<close>.\<close>

definition replace_quotes :: "string \<Rightarrow> string" where
  "replace_quotes x = concat (map (\<lambda>c. if c = CHR 0x22 then [CHR 0x22, CHR 0x22] else [c]) x)"

definition csv_cell :: "env \<Rightarrow> cell \<Rightarrow> string" where
  "csv_cell e v =
     (if v = CNull then []
      else (let stringValue = to_String e v
            in if str_includes stringValue '','' \<or> str_includes stringValue [CHR 0x22] \<or>
                  str_includes stringValue [CHR 0x0A]
               then [CHR 0x22] @ replace_quotes stringValue @ [CHR 0x22]
               else stringValue))"

definition csv_line :: "env \<Rightarrow> string list \<Rightarrow> (string \<times> cell) list \<Rightarrow> string" where
  "csv_line e hs obj =
     join '','' (map (\<lambda>h. csv_cell e (case map_of obj h of None \<Rightarrow> CNull | Some v \<Rightarrow> v)) hs)"

definition csvContent :: "env \<Rightarrow> row list \<Rightarrow> string" where
  "csvContent e rows =
     (let objs = map export_row rows;
          hs = map fst (hd objs)
      in join [CHR 0x0A] (join '','' hs # map (csv_line e hs) objs))"

definition export_logged :: "string option \<Rightarrow> nat \<Rightarrow> request \<Rightarrow> audit_data" where
  "export_logged adminUser rowCount req =
     (only_event_type ''AUDIT_EXPORT'')
       \<lparr> a_event_category := Some ''SYSTEM'',
         a_event_description := Some (''Audit logs exported by '' @ template adminUser),
         a_userid := adminUser,
         a_success := Some True,
         a_additional_data :=
           Some (JObj [(''exported_records'', JNum (int rowCount)),
                       (''filters'',
                        JObj (List.map_filter
                               (\<lambda>k. map_option (\<lambda>v. (k, JStr v)) (query req k))
                               [''start_date'', ''end_date'', ''event_type'']))]) \<rparr>"

definition export_try ::
  "env \<Rightarrow> request \<Rightarrow> string option \<Rightarrow> state \<Rightarrow> (error + response) \<times> state" where
  "export_try e req adminUser s =
     (case export_query e req s of
        (Inl err, s1) \<Rightarrow> (Inl err, s1)
      | (Inr rows, s1) \<Rightarrow>
          (case logAuditEvent e (export_logged adminUser (length rows) req) (Some req) s1 of
             (Inl err, s2) \<Rightarrow> (Inl err, s2)
           | (Inr logged, s2) \<Rightarrow>
               if rows = [] then (Inr Export_empty, s2)
               else (Inr (Export_csv (csvContent e rows)), s2)))"

definition export_handler ::
  "env \<Rightarrow> request \<Rightarrow> string option \<Rightarrow> state \<Rightarrow> (error + response) \<times> state" where
  "export_handler e req adminUser s =
     (case export_try e req adminUser s of
        (Inr r, s') \<Rightarrow> (Inr r, s')
      | (Inl err, s') \<Rightarrow>
          (Inr (Server_error ''Failed to export audit logs'' (error_detail e err)),
           print (LogError ''Error exporting audit logs'' (message err)) s'))"

definition route_export :: "env \<Rightarrow> request \<Rightarrow> state \<Rightarrow> (error + response) \<times> state" where
  "route_export e req s = requireAdmin req (export_handler e req) s"

section \<open>The specification's rules, in its own words\<close>

subsection \<open>The four scoring rules\<close>

text \<open>
  The rule table of the risk scorer: a failed login, an admin-tier role marker in the roles
  snapshot, a suspicious user agent, an unusual hour; the sum is clamped to 100.
\<close>

definition rule_failed_login :: "event_data \<Rightarrow> int" where
  "rule_failed_login d = (if event_type d = LOGIN_FAILED then 10 else 0)"

definition has_admin_marker :: "string option \<Rightarrow> bool" where
  "has_admin_marker r =
     (case r of None \<Rightarrow> False
      | Some s \<Rightarrow> str_includes s ''SMS_SUPERADM'' \<or> str_includes s ''GRP_ADM'')"

definition rule_admin_role :: "event_data \<Rightarrow> int" where
  "rule_admin_role d = (if has_admin_marker (user_roles d) then 5 else 0)"

definition lowered_agent :: "event_data \<Rightarrow> string" where
  "lowered_agent d = (case user_agent d of None \<Rightarrow> [] | Some u \<Rightarrow> toLowerCase u)"

definition rule_user_agent :: "event_data \<Rightarrow> int" where
  "rule_user_agent d =
     (if str_includes (lowered_agent d) ''bot'' \<or> str_includes (lowered_agent d) ''crawler'' \<or>
         str_includes (lowered_agent d) ''spider'' \<or> lowered_agent d = ''unknown''
      then 10 else 0)"

definition rule_unusual_hour :: "env \<Rightarrow> int" where
  "rule_unusual_hour e = (if local_hour e < 6 \<or> local_hour e > 22 then 5 else 0)"

definition spec_score :: "env \<Rightarrow> event_data \<Rightarrow> int" where
  "spec_score e d =
     min 100 (rule_failed_login d + rule_admin_role d + rule_user_agent d + rule_unusual_hour e)"

subsection \<open>What the writer returns\<close>

text \<open>
  The \<open>timestamp\<close> member of the object \<open>logAuditEvent\<close> returned, and the insertion
  times (\<open>created_at\<close>) of the rows of the table.
\<close>

definition returned_timestamp :: "error + audit_entry option \<Rightarrow> time option" where
  "returned_timestamp r =
     (case r of Inl err \<Rightarrow> None | Inr None \<Rightarrow> None | Inr (Some entry) \<Rightarrow> Some (entry_timestamp entry))"

definition insertion_times :: "state \<Rightarrow> time list" where
  "insertion_times s = map created_at (table s)"

subsection \<open>Context extraction\<close>

text \<open>The first populated value of a list of candidates, else the default.\<close>

fun first_populated :: "string option list \<Rightarrow> string \<Rightarrow> string" where
  "first_populated [] d = d"
| "first_populated (None # vs) d = first_populated vs d"
| "first_populated (Some x # vs) d = (if x = [] then first_populated vs d else x)"

text \<open>
  The precedence as the specification words it: the first entry of the proxy-chain header,
  the real-IP header, the socket-level address, else \<open>unknown\<close>.
\<close>

definition spec_source_ip :: "request \<Rightarrow> string" where
  "spec_source_ip req =
     first_populated
       [forwarded_first req, headers req ''x-real-ip'', remote_of (socket req)] ''unknown''"

subsection \<open>CSV quoting\<close>

text \<open>
  Quoting in the style of RFC 4180: a value with a comma, a double quote or a newline is
  wrapped in double quotes, with every double quote inside written twice.
\<close>

fun double_quotes :: "string \<Rightarrow> string" where
  "double_quotes [] = []"
| "double_quotes (c # cs) =
     (if c = CHR 0x22 then CHR 0x22 # CHR 0x22 # double_quotes cs else c # double_quotes cs)"

definition needs_quoting :: "string \<Rightarrow> bool" where
  "needs_quoting x = (CHR '','' \<in> set x \<or> CHR 0x22 \<in> set x \<or> CHR 0x0A \<in> set x)"

definition rfc4180 :: "string \<Rightarrow> string" where
  "rfc4180 x = (if needs_quoting x then CHR 0x22 # double_quotes x @ [CHR 0x22] else x)"

subsection \<open>The admin gate\<close>

text \<open>The role header is present and contains the superadmin marker.\<close>

definition admin_role :: "request \<Rightarrow> bool" where
  "admin_role req =
     (case headers req ''x-user-role'' of None \<Rightarrow> False | Some r \<Rightarrow> str_includes r ''SMS_SUPERADM'')"

definition forbidden :: response where
  "forbidden = Http_error 403 ''Administrative access required''"

text \<open>
  The gate as the specification words it: both identity headers are supplied and the role
  header passes the match.
\<close>

definition spec_admitted :: "request \<Rightarrow> bool" where
  "spec_admitted req =
     (headers req ''x-user-role'' \<noteq> None \<and> headers req ''x-user-id'' \<noteq> None \<and> admin_role req)"

subsection \<open>The retention age\<close>

text \<open>
  The number that the text of a requested age denotes: decimal digits, an optional
  fraction and an optional exponent, as in \<open>5\<close>, \<open>45.7\<close> and \<open>1e+21\<close>.
\<close>

definition decimal_digits :: "string \<Rightarrow> bool" where
  "decimal_digits x = list_all (is_digit_in 10) x"

definition spec_requested :: "string \<Rightarrow> rat option" where
  "spec_requested txt =
     (let mant = takeWhile (\<lambda>c. c \<noteq> CHR ''e'') txt;
          expo = drop 1 (dropWhile (\<lambda>c. c \<noteq> CHR ''e'') txt);
          whole = takeWhile (\<lambda>c. c \<noteq> CHR ''.'') mant;
          frac = drop 1 (dropWhile (\<lambda>c. c \<noteq> CHR ''.'') mant);
          down = starts_with expo ''-'';
          edig = (if starts_with expo ''-'' \<or> starts_with expo ''+'' then tl expo else expo);
          m = of_int (digits_value 10 (whole @ frac)) / 10 ^ length frac
      in if whole \<noteq> [] \<and> decimal_digits whole \<and> decimal_digits frac \<and> decimal_digits edig
         then Some (if down then m / 10 ^ nat (digits_value 10 edig)
                    else m * 10 ^ nat (digits_value 10 edig))
         else None)"

text \<open>The cutoff as the specification words it: the larger of 30 and the requested age.\<close>

definition spec_retention :: "rat \<Rightarrow> rat" where
  "spec_retention requested = max 30 requested"

text \<open>The age of a row at the store's time, in days.\<close>

definition age_days :: "env \<Rightarrow> row \<Rightarrow> rat" where
  "age_days e r = of_int (db_now e - event_timestamp (ev r)) / of_int day_ms"

text \<open>The state once the cleanup handler has written its audit event.\<close>

definition after_cleanup_log :: "env \<Rightarrow> request \<Rightarrow> state \<Rightarrow> state" where
  "after_cleanup_log e req s =
     snd (logAuditEvent e (cleanup_started (headers req ''x-user-id'') (cleanup_daysNum req))
            (Some req) s)"

subsection \<open>The export's filters\<close>


section \<open>Example inputs\<close>

text \<open>
  A serializer for the values used below, standing for \<open>JSON.stringify\<close> on strings that
  need no escape.
\<close>

fun json_text :: "js_value \<Rightarrow> string" where
  "json_text JNull = ''null''"
| "json_text (JBool b) = (if b then ''true'' else ''false'')"
| "json_text (JNum n) = show_int n"
| "json_text (JStr x) = [CHR 0x22] @ x @ [CHR 0x22]"
| "json_text (JArr xs) = ''['' @ join '','' (map json_text xs) @ '']''"
| "json_text (JObj kvs) =
     ''{'' @ join '','' (map (\<lambda>kv. [CHR 0x22] @ fst kv @ [CHR 0x22] @ '':'' @ json_text (snd kv)) kvs) @ ''}''"

text \<open>A runtime whose local hour is \<open>h\<close>.\<close>

definition env_at :: "nat \<Rightarrow> env" where
  "env_at h =
     \<lparr> now = 1700000000000, local_hour = h, hostname = ''sms-01'',
       APP_VERSION = None, NODE_ENV = Some ''production'', db_now = 1700000000000,
       json_stringify = (\<lambda>j. Inr (json_text j)), parse_date = (\<lambda>x. None),
       date_toString = (\<lambda>t. ''Tue Nov 14 2023'') \<rparr>"

definition plain_request :: request where
  "plain_request =
     \<lparr> ip = None, connection = None, socket = None, headers = Map.empty,
       http_method = None, path = None, originalUrl = None,
       query = Map.empty, body_days = None, params_userid = [] \<rparr>"

definition curl_request :: request where
  "curl_request =
     plain_request
       \<lparr> ip := Some ''203.0.113.5'',
         headers := [''user-agent'' \<mapsto> ''curl/7.68.0''],
         http_method := Some ''POST'', path := Some ''/login'' \<rparr>"

definition browser_request :: request where
  "browser_request =
     plain_request
       \<lparr> ip := Some ''198.51.100.7'',
         headers := [''user-agent'' \<mapsto> ''Mozilla/5.0 (X11; Linux x86_64) Firefox/120.0''],
         http_method := Some ''POST'', path := Some ''/login'' \<rparr>"

text \<open>
  A request that came through a proxy: the socket address is the proxy's, the forwarding
  headers carry the client's.
\<close>

definition proxied_request :: request where
  "proxied_request =
     plain_request
       \<lparr> ip := Some ''10.0.0.9'',
         connection := Some \<lparr> remoteAddress = Some ''10.0.0.9'' \<rparr>,
         socket := Some \<lparr> remoteAddress = Some ''10.0.0.9'' \<rparr>,
         headers := [''x-forwarded-for'' \<mapsto> ''203.0.113.5, 10.0.0.1'',
                     ''x-real-ip'' \<mapsto> ''203.0.113.5''],
         http_method := Some ''GET'', path := Some ''/'' \<rparr>"

definition admin_request :: request where
  "admin_request =
     plain_request
       \<lparr> ip := Some ''198.51.100.7'',
         headers := [''x-user-role'' \<mapsto> ''SMS_SUPERADM'', ''x-user-id'' \<mapsto> ''admin1''],
         http_method := Some ''GET'', path := Some ''/'' \<rparr>"

text \<open>A request with the role header and no caller id.\<close>

definition role_only_request :: request where
  "role_only_request = admin_request\<lparr> headers := [''x-user-role'' \<mapsto> ''SMS_SUPERADM''] \<rparr>"


definition success_other_request :: request where
  "success_other_request = admin_request\<lparr> query := [''success'' \<mapsto> ''True''] \<rparr>"

text \<open>An event recorded after the fact: the caller supplies its time.\<close>

definition backfill_data :: audit_data where
  "backfill_data = (only_event_type ''LOGIN_SUCCESS'')\<lparr> a_event_timestamp := Some 1600000000000 \<rparr>"

definition empty_store :: state where
  "empty_store = \<lparr> table = [], next_id = 1, faults = [], queries = 0, console = [] \<rparr>"

definition failing_store :: state where
  "failing_store = empty_store\<lparr> faults := [Some Unreachable] \<rparr>"

text \<open>
  Two stored events, as seen at the store time of \<open>env_at\<close>: one ten days old and one
  forty days old.
\<close>

definition sample_event :: "string \<Rightarrow> string \<Rightarrow> bool \<Rightarrow> time \<Rightarrow> event_data" where
  "sample_event ty uid ok ts =
     \<lparr> event_type = ty, event_category = ''AUTH'', event_description = ty @ '' event'',
       userid = (if ok then Some uid else None), attempted_userid = Some uid,
       user_roles = None, session_id = None, ip_address = Some ''203.0.113.5'',
       user_agent = Some ''curl/7.68.0'', request_method = Some ''POST'',
       request_path = Some ''/login'', success = ok, error_code = None,
       error_message = (if ok then None else Some ''Invalid password''),
       additional_data = None, server_name = ''sms-01'', application_version = ''1.0.0'',
       event_timestamp = ts, risk_score = Some (if ok then 0 else 10) \<rparr>"

definition recent_row :: row where
  "recent_row =
     \<lparr> row_id = 2, ev = sample_event ''LOGIN_SUCCESS'' ''bob'' True 1699136000000,
       created_at = 1699136000000 \<rparr>"

definition old_row :: row where
  "old_row =
     \<lparr> row_id = 1, ev = sample_event ''LOGIN_FAILED'' ''alice'' False 1696544000000,
       created_at = 1696544000000 \<rparr>"

definition two_rows :: state where
  "two_rows = \<lparr> table = [old_row, recent_row], next_id = 3, faults = [], queries = 0, console = [] \<rparr>"

text \<open>The same runtime half a day later by the store's clock.\<close>

definition half_day_later :: env where
  "half_day_later = (env_at 10)\<lparr> db_now := 1700043200000 \<rparr>"

text \<open>
  The events that \<open>loginFailed\<close> and \<open>loginSuccess\<close> prepare in the two scenarios of the
  specification.
\<close>

definition alice_event :: event_data where
  "alice_event =
     \<lparr> event_type = ''LOGIN_FAILED'', event_category = ''AUTH'',
       event_description = ''Failed login attempt for user alice: Invalid password'',
       userid = None, attempted_userid = Some ''alice'', user_roles = None, session_id = None,
       ip_address = Some ''203.0.113.5'', user_agent = Some ''curl/7.68.0'',
       request_method = Some ''POST'', request_path = Some ''/login'', success = False,
       error_code = None, error_message = Some ''Invalid password'',
       additional_data = Some ''{}'', server_name = ''sms-01'', application_version = ''1.0.0'',
       event_timestamp = 1700000000000, risk_score = None \<rparr>"

definition bob_event :: "string list \<Rightarrow> event_data" where
  "bob_event rs =
     \<lparr> event_type = ''LOGIN_SUCCESS'', event_category = ''AUTH'',
       event_description = ''User bob logged in successfully'',
       userid = Some ''bob'', attempted_userid = Some ''bob'',
       user_roles = Some (join '','' rs), session_id = None,
       ip_address = Some ''198.51.100.7'',
       user_agent = Some ''Mozilla/5.0 (X11; Linux x86_64) Firefox/120.0'',
       request_method = Some ''POST'', request_path = Some ''/login'', success = True,
       error_code = None, error_message = None,
       additional_data = Some ''{}'', server_name = ''sms-01'', application_version = ''1.0.0'',
       event_timestamp = 1700000000000, risk_score = None \<rparr>"

section \<open>Properties\<close>

subsection \<open>Evaluating the string operators\<close>

lemma eval_simps:
  "truthy None = False" "truthy (Some x) = (x \<noteq> [])"
  "or_default None d = d" "or_default (Some x) d = (if x = [] then d else x)"
  "or_null None = None" "or_null (Some x) = (if x = [] then None else Some x)"
  by (simp_all add: truthy_def or_default_def or_null_def)

lemma or_else_simps:
  "or_else None b = b" "or_else (Some x) b = (if x = [] then b else Some x)"
  by (simp_all add: or_else_def truthy_def)

subsection \<open>The store and the console\<close>

lemma db_insert_served:
  "next_fault s = None \<Longrightarrow>
   db_insert e v s =
     (Inr (next_id s, event_timestamp v),
      (issue s)\<lparr> table := table s @ [\<lparr> row_id = next_id s, ev = v, created_at = db_now e \<rparr>],
                 next_id := next_id s + 1 \<rparr>)"
  by (simp add: db_insert_def)

lemma db_insert_failed:
  "next_fault s = Some f \<Longrightarrow> db_insert e v s = (Inl (fault_error f), issue s)"
  by (simp add: db_insert_def)

lemma next_fault_print [simp]: "next_fault (print l s) = next_fault s"
  by (simp add: next_fault_def print_def)

lemma table_print [simp]: "table (print l s) = table s"
  by (simp add: print_def)

lemma table_issue [simp]: "table (issue s) = table s"
  by (simp add: issue_def)

lemma next_id_print [simp]: "next_id (print l s) = next_id s"
  by (simp add: print_def)

lemma console_print [simp]: "console (print l s) = console s @ [l]"
  by (simp add: print_def)


lemma set_order_desc [simp]: "set (order_desc k xs) = set xs"
  by (simp add: order_desc_def)

lemma length_order_desc [simp]: "length (order_desc k xs) = length xs"
  by (simp add: order_desc_def)

subsection \<open>Writing an audit event never throws\<close>

text \<open>
  Claim C1, as amended. Whatever the event description, the request and the behaviour of
  the store, \<open>logAuditEvent\<close> returns and no exception leaves it. When the event can be
  prepared and the store serves the insert, it returns the entry with the generated id and
  the event timestamp of the stored row (the caller's, or the time the event was prepared),
  and the row is in the table with the store's time as its insertion time. When preparing
  throws or the store fails the insert (unreachable, rejecting the row, any other failure),
  it returns \<open>null\<close>, the table is as before and the last console line is the logged
  error. The event description is an object and what is thrown is an \<open>Error\<close>.
\<close>

theorem logAuditEvent_never_throws:
  "(\<exists>r. fst (logAuditEvent e auditData req s) = Inr r) \<and>
   (\<forall>prepared. prepareEventData e auditData req = Inr prepared \<and> next_fault s = None \<longrightarrow>
      fst (logAuditEvent e auditData req s) =
        Inr (Some \<lparr> entry_id = next_id s, entry_timestamp = event_timestamp prepared,
                    entry_event = prepared\<lparr> risk_score := Some (calculateRiskScore e prepared) \<rparr> \<rparr>) \<and>
      table (snd (logAuditEvent e auditData req s)) =
        table s @ [\<lparr> row_id = next_id s,
                     ev = prepared\<lparr> risk_score := Some (calculateRiskScore e prepared) \<rparr>,
                     created_at = db_now e \<rparr>]) \<and>
   ((\<exists>err. prepareEventData e auditData req = Inl err) \<or> next_fault s \<noteq> None \<longrightarrow>
      fst (logAuditEvent e auditData req s) = Inr None \<and>
      table (snd (logAuditEvent e auditData req s)) = table s \<and>
      (\<exists>m. last (console (snd (logAuditEvent e auditData req s))) =
             LogError ''Failed to create audit log entry'' m))"
proof (cases "prepareEventData e auditData req")
  case (Inl err)
  then show ?thesis
    by (simp add: logAuditEvent_def logAuditEvent_try_def)
next
  case (Inr prepared)
  show ?thesis
  proof (cases "next_fault s")
    case None
    with Inr show ?thesis
      by (simp add: logAuditEvent_def logAuditEvent_try_def Let_def db_insert_served)
  next
    case (Some f)
    with Inr show ?thesis
      by (simp add: logAuditEvent_def logAuditEvent_try_def Let_def db_insert_failed)
  qed
qed

theorem logAuditEvent_never_throws_witness:
  "next_fault failing_store \<noteq> None \<and>
   fst (logAuditEvent (env_at 2) (loginFailed_data ''alice'' ''Invalid password'' None)
          (Some curl_request) failing_store) = Inr None \<and>
   next_fault empty_store = None \<and>
   (\<exists>d. fst (logAuditEvent (env_at 2) (loginFailed_data ''alice'' ''Invalid password'' None)
          (Some curl_request) empty_store) =
        Inr (Some \<lparr> entry_id = 1, entry_timestamp = 1700000000000, entry_event = d \<rparr>))"
proof -
  have f: "next_fault failing_store \<noteq> None"
    by (simp add: failing_store_def empty_store_def next_fault_def)
  have g: "next_fault empty_store = None"
    by (simp add: empty_store_def next_fault_def)
  obtain p where p: "prepareEventData (env_at 2) (loginFailed_data ''alice'' ''Invalid password'' None)
          (Some curl_request) = Inr p" "event_timestamp p = 1700000000000"
    by (simp add: prepareEventData_def stringify_additional_def loginFailed_data_def
        only_event_type_def additional_or_empty_def env_at_def)
  note t = logAuditEvent_never_throws [of "env_at 2"
      "loginFailed_data ''alice'' ''Invalid password'' None" "Some curl_request"]
  from t [of failing_store] f
  have a: "fst (logAuditEvent (env_at 2) (loginFailed_data ''alice'' ''Invalid password'' None)
          (Some curl_request) failing_store) = Inr None"
    by blast
  from t [of empty_store] g p
  have b: "fst (logAuditEvent (env_at 2) (loginFailed_data ''alice'' ''Invalid password'' None)
          (Some curl_request) empty_store) =
        Inr (Some \<lparr> entry_id = next_id empty_store, entry_timestamp = 1700000000000,
              entry_event = p\<lparr> risk_score := Some (calculateRiskScore (env_at 2) p) \<rparr> \<rparr>)"
    by simp
  have n: "next_id empty_store = 1"
    by (simp add: empty_store_def)
  from f g a b n show ?thesis by simp
qed

text \<open>
  Claim C1 as stated has the writer return the insertion timestamp. For an event whose time
  the caller supplies, the timestamp returned is that time, not the time of the insert.
\<close>

theorem returned_timestamp_counterexample:
  "returned_timestamp (fst (logAuditEvent (env_at 10) backfill_data None empty_store)) =
     Some 1600000000000 \<and>
   insertion_times (snd (logAuditEvent (env_at 10) backfill_data None empty_store)) =
     [1700000000000] \<and>
   returned_timestamp (fst (logAuditEvent (env_at 10) backfill_data None empty_store)) \<noteq>
     Some (hd (insertion_times (snd (logAuditEvent (env_at 10) backfill_data None empty_store))))"
  by code_simp

subsection \<open>The risk score\<close>

lemma score_eq: "calculateRiskScore e d = spec_score e d"
  unfolding calculateRiskScore_def spec_score_def rule_failed_login_def rule_admin_role_def
    rule_user_agent_def rule_unusual_hour_def has_admin_marker_def lowered_agent_def
    FAILED_LOGIN_def ADMIN_ACCESS_def SUSPICIOUS_USER_AGENT_def UNUSUAL_HOURS_def
    truthy_def or_default_def Let_def
  by (cases "user_roles d"; cases "user_agent d") (auto simp: toLowerCase_def)

lemma spec_score_bounds: "0 \<le> spec_score e d \<and> spec_score e d \<le> 100"
  by (simp add: spec_score_def rule_failed_login_def rule_admin_role_def
      rule_user_agent_def rule_unusual_hour_def)

lemma lower_curl: "toLowerCase ''curl/7.68.0'' = ''curl/7.68.0''"
  by (simp add: toLowerCase_def lower_char_def)

text \<open>
  Claim C2. The risk score is the sum of the four rules (10 for a failed login, 5 for an
  admin-tier role marker, 10 for a suspicious user agent, 5 for an hour before 6 or after
  22), clamped to 100, so it lies between 0 and 100; a failed login with no roles and user
  agent \<open>curl/7.68.0\<close> scored at hour 2 gets exactly 15.
\<close>

theorem risk_score_rules:
  "calculateRiskScore e d =
     min 100 (rule_failed_login d + rule_admin_role d + rule_user_agent d + rule_unusual_hour e) \<and>
   0 \<le> calculateRiskScore e d \<and> calculateRiskScore e d \<le> 100 \<and>
   (event_type d = LOGIN_FAILED \<and> user_roles d = None \<and>
    user_agent d = Some ''curl/7.68.0'' \<and> local_hour e = 2
      \<longrightarrow> calculateRiskScore e d = 15)"
proof -
  have eq: "calculateRiskScore e d = spec_score e d"
    by (rule score_eq)
  have ex: "spec_score e d = 15"
    if "event_type d = LOGIN_FAILED" "user_roles d = None"
       "user_agent d = Some ''curl/7.68.0''" "local_hour e = 2"
    using that
    by (simp add: spec_score_def rule_failed_login_def rule_admin_role_def
        rule_user_agent_def rule_unusual_hour_def has_admin_marker_def lowered_agent_def lower_curl)
  from eq spec_score_bounds [of e d] ex show ?thesis
    by (simp add: spec_score_def)
qed

lemma prepare_alice:
  "prepareEventData (env_at 2) (loginFailed_data ''alice'' ''Invalid password'' None)
     (Some curl_request) = Inr alice_event"
  by (simp add: prepareEventData_def stringify_additional_def loginFailed_data_def
      only_event_type_def additional_or_empty_def env_at_def alice_event_def
      extractClientInfo_def curl_request_def plain_request_def eval_simps or_else_simps
      join_roles_def remote_of_def forwarded_first_def AUTH_def LOGIN_FAILED_def show_int_def)

theorem risk_score_rules_witness:
  "prepareEventData (env_at 2) (loginFailed_data ''alice'' ''Invalid password'' None)
     (Some curl_request) = Inr alice_event \<and>
   event_type alice_event = LOGIN_FAILED \<and> user_roles alice_event = None \<and>
   user_agent alice_event = Some ''curl/7.68.0'' \<and> local_hour (env_at 2) = 2 \<and>
   calculateRiskScore (env_at 2) alice_event = 15"
  using risk_score_rules [of "env_at 2" alice_event] prepare_alice
  by (simp add: alice_event_def env_at_def LOGIN_FAILED_def)

lemma prepare_bob:
  "prepareEventData (env_at 10) (loginSuccess_data ''bob'' (Some (RolesArray rs)) None)
     (Some browser_request) = Inr (bob_event rs)"
  by (simp add: prepareEventData_def stringify_additional_def loginSuccess_data_def
      only_event_type_def additional_or_empty_def env_at_def bob_event_def
      extractClientInfo_def browser_request_def plain_request_def eval_simps or_else_simps
      join_roles_def remote_of_def forwarded_first_def AUTH_def LOGIN_SUCCESS_def show_int_def)

lemma firefox_not_suspicious: "rule_user_agent (bob_event rs) = 0"
  by (simp add: rule_user_agent_def lowered_agent_def bob_event_def toLowerCase_def lower_char_def)

text \<open>
  Claim C3, as amended. The admin-tier rule fires on the markers \<open>SMS_SUPERADM\<close> and
  \<open>GRP_ADM\<close> only: a successful login at an hour from 6 to 22 with a user agent that is
  not suspicious scores 0 with the roles \<open>ADMIN,USER\<close> and 5 with \<open>SMS_SUPERADM,USER\<close>
  or \<open>GRP_ADM,USER\<close>.
\<close>

theorem admin_rule_markers:
  "event_type d = LOGIN_SUCCESS \<and> rule_user_agent d = 0 \<and>
   6 \<le> local_hour e \<and> local_hour e \<le> 22 \<longrightarrow>
     (user_roles d = Some (join '','' [''ADMIN'', ''USER'']) \<longrightarrow> calculateRiskScore e d = 0) \<and>
     (user_roles d = Some (join '','' [''SMS_SUPERADM'', ''USER'']) \<longrightarrow> calculateRiskScore e d = 5) \<and>
     (user_roles d = Some (join '','' [''GRP_ADM'', ''USER'']) \<longrightarrow> calculateRiskScore e d = 5)"
  unfolding score_eq spec_score_def
  by (simp add: rule_failed_login_def rule_admin_role_def rule_unusual_hour_def
      has_admin_marker_def LOGIN_FAILED_def LOGIN_SUCCESS_def)

theorem admin_rule_markers_witness:
  "event_type (bob_event [''SMS_SUPERADM'', ''USER'']) = LOGIN_SUCCESS \<and>
   rule_user_agent (bob_event [''SMS_SUPERADM'', ''USER'']) = 0 \<and>
   6 \<le> local_hour (env_at 10) \<and> local_hour (env_at 10) \<le> 22 \<and>
   user_roles (bob_event [''SMS_SUPERADM'', ''USER'']) = Some (join '','' [''SMS_SUPERADM'', ''USER'']) \<and>
   calculateRiskScore (env_at 10) (bob_event [''SMS_SUPERADM'', ''USER'']) = 5"
  using admin_rule_markers [of "bob_event [''SMS_SUPERADM'', ''USER'']" "env_at 10"]
    firefox_not_suspicious [of "[''SMS_SUPERADM'', ''USER'']"]
  by (simp add: bob_event_def env_at_def LOGIN_SUCCESS_def)

text \<open>
  The scenario of claim C3 as stated: \<open>bob\<close> logs in with the roles \<open>ADMIN\<close> and
  \<open>USER\<close> at hour 10 from a browser; the score is 0, not 5.
\<close>

theorem admin_user_roles_counterexample:
  "prepareEventData (env_at 10)
     (loginSuccess_data ''bob'' (Some (RolesArray [''ADMIN'', ''USER''])) None)
     (Some browser_request) = Inr (bob_event [''ADMIN'', ''USER'']) \<and>
   calculateRiskScore (env_at 10) (bob_event [''ADMIN'', ''USER'']) = 0 \<and>
   calculateRiskScore (env_at 10) (bob_event [''ADMIN'', ''USER'']) \<noteq> 5"
proof -
  have "calculateRiskScore (env_at 10) (bob_event [''ADMIN'', ''USER'']) = 0"
    unfolding score_eq spec_score_def firefox_not_suspicious
    by (simp add: rule_failed_login_def rule_admin_role_def rule_unusual_hour_def
        has_admin_marker_def bob_event_def env_at_def LOGIN_FAILED_def)
  with prepare_bob [of "[''ADMIN'', ''USER'']"] show ?thesis by simp
qed

subsection \<open>Context extraction\<close>

lemma or_default_single: "or_default a d = first_populated [a] d"
  by (cases a) (auto simp: or_default_def)

lemma or_default_chain: "or_default (or_else a b) d = first_populated [a] (or_default b d)"
  by (cases a) (auto simp: or_else_def or_default_def truthy_def)

lemma first_populated_step: "first_populated [a] (first_populated vs d) = first_populated (a # vs) d"
  by (cases a) auto

text \<open>
  Claim C4, as amended. The source IP is the first populated of: the address the framework
  resolved (\<open>req.ip\<close>), the connection's remote address, the socket's remote address,
  the trimmed first entry of \<open>x-forwarded-for\<close>, \<open>x-real-ip\<close>; else \<open>unknown\<close>. The
  user agent is its header or \<open>unknown\<close>, the verb is the request's or \<open>unknown\<close>,
  and the path is the request's path, else its original URL, else \<open>unknown\<close>.
\<close>

theorem extractClientInfo_precedence:
  "ci_ip_address (extractClientInfo req) =
     first_populated
       [ip req, remote_of (connection req), remote_of (socket req), forwarded_first req,
        headers req ''x-real-ip''] ''unknown'' \<and>
   ci_user_agent (extractClientInfo req) = first_populated [headers req ''user-agent''] ''unknown'' \<and>
   ci_request_method (extractClientInfo req) = first_populated [http_method req] ''unknown'' \<and>
   ci_request_path (extractClientInfo req) =
     first_populated [path req, originalUrl req] ''unknown''"
  unfolding extractClientInfo_def Let_def or_default_chain
  unfolding or_default_single
  unfolding first_populated_step
  by simp

theorem extractClientInfo_precedence_witness:
  "ci_ip_address (extractClientInfo proxied_request) = ''10.0.0.9'' \<and>
   ci_user_agent (extractClientInfo proxied_request) = ''unknown'' \<and>
   ci_request_method (extractClientInfo proxied_request) = ''GET'' \<and>
   ci_request_path (extractClientInfo proxied_request) = ''/''"
  using extractClientInfo_precedence [of proxied_request]
  by (simp add: proxied_request_def plain_request_def remote_of_def forwarded_first_def)

text \<open>
  Claim C4 as stated puts the forwarding headers before the socket address. For a proxied
  request the code reports the socket address, the specification's order the client's.
\<close>

theorem source_ip_precedence_counterexample:
  "spec_source_ip proxied_request = ''203.0.113.5'' \<and>
   ci_ip_address (extractClientInfo proxied_request) = ''10.0.0.9'' \<and>
   ci_ip_address (extractClientInfo proxied_request) \<noteq> spec_source_ip proxied_request"
  by (simp add: spec_source_ip_def extractClientInfo_def proxied_request_def plain_request_def
      remote_of_def forwarded_first_def eval_simps or_else_simps trim_def split_first_def is_ws_def)

subsection \<open>Defaults of the normalizer\<close>

text \<open>
  Claim C5, as amended. For an event description with only \<open>event_type\<close> set, the prepared
  event has every default: category \<open>AUTH\<close>, description \<open>event_type\<close> followed by
  \<open> event\<close>, the current time, the host name, the configured version or \<open>1.0.0\<close>,
  no user, roles, session, error or additional data, and \<open>success\<close> false. Preparing the
  result again, at any later time on the same host, gives the same event.
\<close>

theorem normalizer_defaults_idempotent:
  "\<exists>d. prepareEventData e (only_event_type t) req = Inr d \<and>
       event_type d = t \<and>
       event_category d = ''AUTH'' \<and>
       event_description d = t @ '' event'' \<and>
       event_timestamp d = now e \<and>
       server_name d = hostname e \<and>
       application_version d = or_default (APP_VERSION e) ''1.0.0'' \<and>
       userid d = None \<and> attempted_userid d = None \<and> user_roles d = None \<and>
       session_id d = None \<and> success d = False \<and> error_code d = None \<and>
       error_message d = None \<and> additional_data d = None \<and>
       ip_address d = map_option (\<lambda>r. ci_ip_address (extractClientInfo r)) req \<and>
       user_agent d = map_option (\<lambda>r. ci_user_agent (extractClientInfo r)) req \<and>
       request_method d = map_option (\<lambda>r. ci_request_method (extractClientInfo r)) req \<and>
       request_path d = map_option (\<lambda>r. ci_request_path (extractClientInfo r)) req \<and>
       (\<forall>e'. hostname e' = hostname e \<longrightarrow> prepareEventData e' (as_auditData d) req = Inr d)"
proof -
  have v: "or_default a ''1.0.0'' \<noteq> []" for a
    by (cases a) (auto simp: eval_simps)
  show ?thesis
    by (simp add: prepareEventData_def stringify_additional_def only_event_type_def
        as_auditData_def eval_simps or_else_simps join_roles_def AUTH_def v
        option.map_comp comp_def)
qed

theorem normalizer_defaults_idempotent_witness:
  "\<exists>d. prepareEventData (env_at 10) (only_event_type ''LOGOUT'') (Some curl_request) = Inr d \<and>
       event_category d = ''AUTH'' \<and> event_description d = ''LOGOUT event'' \<and>
       server_name d = ''sms-01'' \<and> application_version d = ''1.0.0'' \<and>
       event_timestamp d = 1700000000000 \<and>
       hostname (env_at 3) = hostname (env_at 10) \<and>
       prepareEventData (env_at 3) (as_auditData d) (Some curl_request) = Inr d"
  using normalizer_defaults_idempotent [of "env_at 10" "''LOGOUT''" "Some curl_request"]
  by (auto simp: env_at_def eval_simps)

text \<open>
  Claim C5 as stated names the default category \<open>authentication\<close>; the code's default is
  the constant \<open>AUTH\<close>.
\<close>

theorem default_category_counterexample:
  "\<not> (\<exists>d. prepareEventData (env_at 10) (only_event_type ''LOGIN_SUCCESS'') None = Inr d \<and>
          event_category d = ''authentication'')"
  by (simp add: prepareEventData_def stringify_additional_def only_event_type_def
      eval_simps AUTH_def)

subsection \<open>Retention cleanup\<close>

lemma logAuditEvent_shape:
  "\<exists>entry extra.
     logAuditEvent e a req s = (Inr entry, snd (logAuditEvent e a req s)) \<and>
     table (snd (logAuditEvent e a req s)) = table s @ extra \<and> length extra \<le> 1"
proof (cases "prepareEventData e a req")
  case (Inl err)
  then show ?thesis
    by (simp add: logAuditEvent_def logAuditEvent_try_def)
next
  case (Inr prepared)
  show ?thesis
  proof (cases "next_fault s")
    case None
    with Inr show ?thesis
      by (simp add: logAuditEvent_def logAuditEvent_try_def Let_def db_insert_served)
  next
    case (Some f)
    with Inr show ?thesis
      by (simp add: logAuditEvent_def logAuditEvent_try_def Let_def db_insert_failed)
  qed
qed

lemma logAuditEvent_keeps:
  "(\<exists>entry. logAuditEvent e a req s = (Inr entry, snd (logAuditEvent e a req s))) \<and>
   set (table s) \<subseteq> set (table (snd (logAuditEvent e a req s)))"
  using logAuditEvent_shape [of e a req s] by auto

lemma logAuditEvent_result:
  obtains entry s' where "logAuditEvent e a req s = (Inr entry, s')"
    and "set (table s) \<subseteq> set (table s')"
  using logAuditEvent_keeps [of e a req s] by blast

lemma in_window_mono: "m \<le> n \<Longrightarrow> in_window e m r \<Longrightarrow> in_window e n r"
proof -
  assume a: "m \<le> n" and b: "in_window e m r"
  have "n * day_ms \<ge> m * day_ms"
    using a by (simp add: day_ms_def)
  with b show ?thesis
    by (simp add: in_window_def)
qed

lemma db_delete_older_served:
  assumes "next_fault s = None" and "interval_ok e dn"
  shows "db_delete_older e dn s =
     (Inr (length (filter (\<lambda>r. \<not> in_window e (int_of dn) r) (table s))),
      (issue s)\<lparr> table := filter (in_window e (int_of dn)) (table s) \<rparr>)"
proof -
  have "length (table s) - length (filter (in_window e (int_of dn)) (table s)) =
        length (filter (\<lambda>r. \<not> in_window e (int_of dn) r) (table s))"
    using sum_length_filter_compl [of "in_window e (int_of dn)" "table s"] by simp
  with assms show ?thesis
    by (simp add: db_delete_older_def Let_def)
qed

lemma db_delete_older_failed:
  assumes "\<not> (next_fault s = None \<and> interval_ok e dn)"
  shows "\<exists>err. db_delete_older e dn s = (Inl err, issue s)"
  using assms by (cases "next_fault s") (auto simp: db_delete_older_def)

text \<open>The cleanup handler when the store carries out the delete statement.\<close>

lemma cleanup_handler_served:
  assumes "next_fault (after_cleanup_log e req s) = None"
    and "interval_ok e (cleanup_daysNum req)"
  shows "cleanup_handler e req (headers req ''x-user-id'') s =
     (Inr (Cleanup_ok
            (''Cleaned up audit logs older than '' @ number_text (cleanup_daysNum req) @ '' days'')
            (length (filter (\<lambda>r. \<not> in_window e (int_of (cleanup_daysNum req)) r)
               (table (after_cleanup_log e req s))))
            (cleanup_daysNum req)),
      (issue (after_cleanup_log e req s))
        \<lparr> table := filter (in_window e (int_of (cleanup_daysNum req)))
                     (table (after_cleanup_log e req s)) \<rparr>)"
proof -
  let ?uid = "headers req ''x-user-id''"
  obtain lg where l1: "logAuditEvent e (cleanup_started ?uid (cleanup_daysNum req)) (Some req) s =
      (Inr lg, after_cleanup_log e req s)"
    using logAuditEvent_keeps [of e "cleanup_started ?uid (cleanup_daysNum req)" "Some req" s]
    by (auto simp: after_cleanup_log_def)
  from db_delete_older_served [OF assms] l1 show ?thesis
    by (simp add: cleanup_handler_def cleanup_try_def Let_def)
qed

text \<open>The cleanup handler when the store fails or refuses the delete statement.\<close>

lemma cleanup_handler_failed:
  assumes "\<not> (next_fault (after_cleanup_log e req s) = None \<and> interval_ok e (cleanup_daysNum req))"
  shows "\<exists>b s'. cleanup_handler e req (headers req ''x-user-id'') s =
             (Inr (Server_error ''Failed to cleanup audit logs'' b), s') \<and>
           set (table s) \<subseteq> set (table s')"
proof -
  let ?uid = "headers req ''x-user-id''"
  let ?s1 = "after_cleanup_log e req s"
  obtain lg where l1: "logAuditEvent e (cleanup_started ?uid (cleanup_daysNum req)) (Some req) s =
      (Inr lg, ?s1)"
    using logAuditEvent_keeps [of e "cleanup_started ?uid (cleanup_daysNum req)" "Some req" s]
    by (auto simp: after_cleanup_log_def)
  have t1: "set (table s) \<subseteq> set (table ?s1)"
    unfolding after_cleanup_log_def by (rule logAuditEvent_keeps [THEN conjunct2])
  from db_delete_older_failed [OF assms]
  obtain err where d: "db_delete_older e (cleanup_daysNum req) ?s1 = (Inl err, issue ?s1)" ..
  let ?s2 = "print (LogError ''Error cleaning up audit logs'' (message err)) (issue ?s1)"
  obtain lg2 s3 where l2: "logAuditEvent e (cleanup_failed ?uid err) (Some req) ?s2 = (Inr lg2, s3)"
    and t2: "set (table ?s2) \<subseteq> set (table s3)"
    by (rule logAuditEvent_result)
  have h: "cleanup_handler e req ?uid s =
      (Inr (Server_error ''Failed to cleanup audit logs'' (error_detail e err)), s3)"
    using l1 d l2 by (simp add: cleanup_handler_def cleanup_try_def Let_def)
  have "set (table s) \<subseteq> set (table s3)"
    using t1 t2 by simp
  with h show ?thesis by blast
qed

lemma cleanup_daysNum_floor:
  "cleanup_daysNum req = Num d \<Longrightarrow> 30 \<le> d"
  by (cases "parseInt_or 365 (body_days req)") (auto simp: cleanup_daysNum_def)

lemma route_cleanup_admin:
  "route_cleanup e req s =
     (if admin_role req then cleanup_handler e req (headers req ''x-user-id'') s
      else (Inr forbidden, s))"
  by (cases "headers req ''x-user-role''")
     (auto simp: route_cleanup_def requireAdmin_def admin_role_def forbidden_def truthy_def Let_def)

text \<open>
  Claim C6, as amended. The cleanup reads the requested age with \<open>parseInt\<close> (365 when
  none is given) and applies the larger of 30 and that integer. Whatever is requested and
  however the store behaves, a row of the table whose event time is within the last 30
  days is still there afterwards. The handler first writes its audit event, which adds at
  most one row. When the caller passes the admin gate and the store carries out the delete
  for that many days, the answer is a success with exactly that retention, the rows left
  are exactly those within it, and the count is exactly the number of rows the delete
  removed. A success is answered in no other case, and without one no row of the table is
  removed: a caller who does not pass the gate is answered 403 and nothing changes, and
  when the store fails the delete or cannot compute the cutoff, as when no integer can
  be read from the requested age, the answer is the cleanup's server error.
\<close>

theorem cleanup_retention_floor:
  "(\<forall>r \<in> set (table s). in_window e 30 r \<longrightarrow> r \<in> set (table (snd (route_cleanup e req s)))) \<and>
   (\<exists>extra. table (after_cleanup_log e req s) = table s @ extra \<and> length extra \<le> 1) \<and>
   (\<forall>k. parseInt_or 365 (body_days req) = Num k \<longrightarrow> cleanup_daysNum req = Num (max 30 k)) \<and>
   (admin_role req \<and> interval_ok e (cleanup_daysNum req) \<and>
    next_fault (after_cleanup_log e req s) = None \<longrightarrow>
      route_cleanup e req s =
        (Inr (Cleanup_ok
               (''Cleaned up audit logs older than '' @ number_text (cleanup_daysNum req) @ '' days'')
               (length (filter (\<lambda>r. \<not> in_window e (int_of (cleanup_daysNum req)) r)
                  (table (after_cleanup_log e req s))))
               (cleanup_daysNum req)),
         (issue (after_cleanup_log e req s))
           \<lparr> table := filter (in_window e (int_of (cleanup_daysNum req)))
                        (table (after_cleanup_log e req s)) \<rparr>)) \<and>
   (\<forall>msg n d. fst (route_cleanup e req s) = Inr (Cleanup_ok msg n d) \<longrightarrow>
      admin_role req \<and> interval_ok e (cleanup_daysNum req) \<and>
      next_fault (after_cleanup_log e req s) = None \<and>
      d = cleanup_daysNum req \<and> (\<exists>k. d = Num k \<and> 30 \<le> k) \<and>
      n = length (filter (\<lambda>r. \<not> in_window e (int_of d) r) (table (after_cleanup_log e req s))) \<and>
      table (snd (route_cleanup e req s)) =
        filter (in_window e (int_of d)) (table (after_cleanup_log e req s))) \<and>
   ((\<forall>msg n d. fst (route_cleanup e req s) \<noteq> Inr (Cleanup_ok msg n d)) \<longrightarrow>
      set (table s) \<subseteq> set (table (snd (route_cleanup e req s)))) \<and>
   (\<not> admin_role req \<longrightarrow> route_cleanup e req s = (Inr forbidden, s)) \<and>
   (admin_role req \<and>
    \<not> (interval_ok e (cleanup_daysNum req) \<and> next_fault (after_cleanup_log e req s) = None) \<longrightarrow>
      (\<exists>detail. fst (route_cleanup e req s) =
         Inr (Server_error ''Failed to cleanup audit logs'' detail))) \<and>
   (parseInt_or 365 (body_days req) = NaN \<longrightarrow> \<not> interval_ok e (cleanup_daysNum req))"
  (is "?floor \<and> ?logged \<and> ?days \<and> ?served_case \<and> ?success_only \<and> ?otherwise \<and>
       ?gate \<and> ?refused \<and> ?unread")
proof -
  let ?dn = "cleanup_daysNum req"
  let ?s1 = "after_cleanup_log e req s"
  let ?served = "next_fault ?s1 = None \<and> interval_ok e ?dn"
  let ?ok = "(Inr (Cleanup_ok
               (''Cleaned up audit logs older than '' @ number_text ?dn @ '' days'')
               (length (filter (\<lambda>r. \<not> in_window e (int_of ?dn) r) (table ?s1))) ?dn),
         (issue ?s1)\<lparr> table := filter (in_window e (int_of ?dn)) (table ?s1) \<rparr>)"
  have ext: "\<exists>extra. table ?s1 = table s @ extra \<and> length extra \<le> 1"
    using logAuditEvent_shape [of e "cleanup_started (headers req ''x-user-id'') ?dn" "Some req" s]
    by (auto simp: after_cleanup_log_def)
  then have sub: "set (table s) \<subseteq> set (table ?s1)" by auto
  have days: "?dn = Num (max 30 k)" if "parseInt_or 365 (body_days req) = Num k" for k
    using that by (simp add: cleanup_daysNum_def)
  have good: "route_cleanup e req s = ?ok" if "admin_role req" "?served"
    using that cleanup_handler_served [of e req s] by (simp add: route_cleanup_admin)
  have num: "\<exists>k. ?dn = Num k \<and> 30 \<le> k" if "interval_ok e ?dn"
    using that cleanup_daysNum_floor [of req] by (cases ?dn) (auto simp: interval_ok_def)
  have bad: "\<exists>r s'. route_cleanup e req s = (Inr r, s') \<and> (\<forall>msg n d. r \<noteq> Cleanup_ok msg n d) \<and>
      set (table s) \<subseteq> set (table s')" if "\<not> (admin_role req \<and> ?served)"
  proof (cases "admin_role req")
    case False
    then have "route_cleanup e req s = (Inr forbidden, s)"
      by (simp add: route_cleanup_admin)
    then show ?thesis by (simp add: forbidden_def)
  next
    case True
    with that have "\<not> ?served" by simp
    from cleanup_handler_failed [OF this] True show ?thesis
      by (auto simp: route_cleanup_admin)
  qed
  have floor: "r \<in> set (table (snd (route_cleanup e req s)))"
    if r: "r \<in> set (table s)" "in_window e 30 r" for r
  proof (cases "admin_role req \<and> ?served")
    case True
    then obtain k where k: "?dn = Num k" "30 \<le> k" using num by blast
    from in_window_mono [OF k(2) r(2)] r(1) sub k(1) good True show ?thesis
      by auto
  next
    case False
    from bad [OF this] r(1) show ?thesis by auto
  qed
  have only: "admin_role req \<and> ?served \<and> d = ?dn \<and> (\<exists>k. d = Num k \<and> 30 \<le> k) \<and>
      n = length (filter (\<lambda>r. \<not> in_window e (int_of d) r) (table ?s1)) \<and>
      table (snd (route_cleanup e req s)) = filter (in_window e (int_of d)) (table ?s1)"
    if c: "fst (route_cleanup e req s) = Inr (Cleanup_ok msg n d)" for msg n d
  proof (cases "admin_role req \<and> ?served")
    case True
    with good have "route_cleanup e req s = ?ok" by simp
    with c True num show ?thesis by auto
  next
    case False
    from bad [OF this] c show ?thesis by auto
  qed
  have none: "set (table s) \<subseteq> set (table (snd (route_cleanup e req s)))"
    if c: "\<forall>msg n d. fst (route_cleanup e req s) \<noteq> Inr (Cleanup_ok msg n d)"
  proof (cases "admin_role req \<and> ?served")
    case True
    with good c show ?thesis by simp
  next
    case False
    from bad [OF this] show ?thesis by auto
  qed
  have gate: "route_cleanup e req s = (Inr forbidden, s)" if "\<not> admin_role req"
    using that by (simp add: route_cleanup_admin)
  have refused: "\<exists>detail. fst (route_cleanup e req s) =
      Inr (Server_error ''Failed to cleanup audit logs'' detail)"
    if a: "admin_role req" and n: "\<not> (interval_ok e ?dn \<and> next_fault ?s1 = None)"
  proof -
    from n have "\<not> ?served" by blast
    from cleanup_handler_failed [OF this] a show ?thesis
      by (auto simp: route_cleanup_admin)
  qed
  have unread: "\<not> interval_ok e ?dn" if "parseInt_or 365 (body_days req) = NaN"
    using that by (simp add: cleanup_daysNum_def interval_ok_def)
  show ?thesis
  proof (intro conjI)
    show ?floor using floor by blast
    show ?logged by (rule ext)
    show ?days using days by blast
    show ?served_case using good by blast
    show ?success_only using only by blast
    show ?otherwise using none by blast
    show ?gate using gate by blast
    show ?refused using refused by blast
    show ?unread using unread by blast
  qed
qed

lemma parseInt_5: "parseInt ''5'' = Num 5"
  by code_simp

theorem cleanup_retention_floor_witness:
  "recent_row \<in> set (table two_rows) \<and> in_window (env_at 10) 30 recent_row \<and>
   admin_role (admin_request\<lparr> body_days := Some ''5'' \<rparr>) \<and>
   parseInt_or 365 (body_days (admin_request\<lparr> body_days := Some ''5'' \<rparr>)) = Num 5 \<and>
   cleanup_daysNum (admin_request\<lparr> body_days := Some ''5'' \<rparr>) = Num 30 \<and>
   interval_ok (env_at 10) (Num 30) \<and>
   next_fault (after_cleanup_log (env_at 10) (admin_request\<lparr> body_days := Some ''5'' \<rparr>)
     two_rows) = None \<and>
   fst (route_cleanup (env_at 10) (admin_request\<lparr> body_days := Some ''5'' \<rparr>) two_rows) =
     Inr (Cleanup_ok ''Cleaned up audit logs older than 30 days'' 1 (Num 30)) \<and>
   recent_row \<in> set (table (snd (route_cleanup (env_at 10)
     (admin_request\<lparr> body_days := Some ''5'' \<rparr>) two_rows))) \<and>
   old_row \<notin> set (table (snd (route_cleanup (env_at 10)
     (admin_request\<lparr> body_days := Some ''5'' \<rparr>) two_rows))) \<and>
   \<not> admin_role plain_request \<and>
   route_cleanup (env_at 10) plain_request two_rows = (Inr forbidden, two_rows) \<and>
   admin_role (admin_request\<lparr> body_days := Some ''abc'' \<rparr>) \<and>
   parseInt_or 365 (body_days (admin_request\<lparr> body_days := Some ''abc'' \<rparr>)) = NaN \<and>
   \<not> interval_ok (env_at 10) (cleanup_daysNum (admin_request\<lparr> body_days := Some ''abc'' \<rparr>)) \<and>
   (\<exists>detail. fst (route_cleanup (env_at 10) (admin_request\<lparr> body_days := Some ''abc'' \<rparr>)
       two_rows) = Inr (Server_error ''Failed to cleanup audit logs'' detail)) \<and>
   set (table two_rows) \<subseteq> set (table (snd (route_cleanup (env_at 10)
     (admin_request\<lparr> body_days := Some ''abc'' \<rparr>) two_rows)))"
proof -
  let ?req = "admin_request\<lparr> body_days := Some ''5'' \<rparr>"
  let ?abc = "admin_request\<lparr> body_days := Some ''abc'' \<rparr>"
  have a: "admin_role ?req" "interval_ok (env_at 10) (Num 30)"
    "next_fault (after_cleanup_log (env_at 10) ?req two_rows) = None"
    by code_simp+
  have w: "recent_row \<in> set (table two_rows)" "in_window (env_at 10) 30 recent_row"
    by code_simp+
  have p: "parseInt_or 365 (body_days ?req) = Num 5"
    by (simp add: parseInt_or_def parseInt_5)
  have o: "old_row \<notin> set (table (snd (route_cleanup (env_at 10) ?req two_rows)))"
    by code_simp
  note t = cleanup_retention_floor [of two_rows "env_at 10" ?req]
  from t [THEN conjunct1] w
  have k: "recent_row \<in> set (table (snd (route_cleanup (env_at 10) ?req two_rows)))"
    by blast
  from t [THEN conjunct2, THEN conjunct2, THEN conjunct1] p
  have d: "cleanup_daysNum ?req = Num 30"
    by simp
  have m: "number_digits 30 = ''30''"
    by code_simp
  have c: "length (filter (\<lambda>r. \<not> in_window (env_at 10) 30 r)
      (table (after_cleanup_log (env_at 10) ?req two_rows))) = 1"
    unfolding after_cleanup_log_def d by code_simp
  from t [THEN conjunct2, THEN conjunct2, THEN conjunct2, THEN conjunct1] a
  have r: "fst (route_cleanup (env_at 10) ?req two_rows) =
     Inr (Cleanup_ok ''Cleaned up audit logs older than 30 days'' 1 (Num 30))"
    by (simp add: d m c)
  have g: "\<not> admin_role plain_request"
    by code_simp
  note t2 = cleanup_retention_floor [of two_rows "env_at 10" plain_request]
  from t2 [THEN conjunct2, THEN conjunct2, THEN conjunct2, THEN conjunct2, THEN conjunct2,
      THEN conjunct2, THEN conjunct1] g
  have f: "route_cleanup (env_at 10) plain_request two_rows = (Inr forbidden, two_rows)"
    by blast
  have b: "admin_role ?abc"
    by code_simp
  have n: "parseInt_or 365 (body_days ?abc) = NaN"
    by code_simp
  note t3 = cleanup_retention_floor [of two_rows "env_at 10" ?abc]
  from t3 [THEN conjunct2, THEN conjunct2, THEN conjunct2, THEN conjunct2, THEN conjunct2,
      THEN conjunct2, THEN conjunct2, THEN conjunct2] n
  have u: "\<not> interval_ok (env_at 10) (cleanup_daysNum ?abc)"
    by blast
  from t3 [THEN conjunct2, THEN conjunct2, THEN conjunct2, THEN conjunct2, THEN conjunct2,
      THEN conjunct2, THEN conjunct2, THEN conjunct1] b u
  have e: "\<exists>detail. fst (route_cleanup (env_at 10) ?abc two_rows) =
      Inr (Server_error ''Failed to cleanup audit logs'' detail)"
    by blast
  then have "\<forall>msg n d. fst (route_cleanup (env_at 10) ?abc two_rows) \<noteq> Inr (Cleanup_ok msg n d)"
    by auto
  with t3 [THEN conjunct2, THEN conjunct2, THEN conjunct2, THEN conjunct2, THEN conjunct2,
      THEN conjunct1]
  have z: "set (table two_rows) \<subseteq> set (table (snd (route_cleanup (env_at 10) ?abc two_rows)))"
    by blast
  show ?thesis
    using a w p o k d r g f b n u e z by (intro conjI) assumption+
qed

text \<open>
  Requests that the store refuses: no integer can be read from \<open>abc\<close>, and the store has
  no time 3000000 days back. The answer is the server error and both rows are kept.
\<close>

lemma cleanup_refused_examples:
  "fst (route_cleanup (env_at 10) (admin_request\<lparr> body_days := Some ''abc'' \<rparr>) two_rows) =
     Inr (Server_error ''Failed to cleanup audit logs'' ''Internal server error'') \<and>
   old_row \<in> set (table (snd (route_cleanup (env_at 10)
     (admin_request\<lparr> body_days := Some ''abc'' \<rparr>) two_rows))) \<and>
   recent_row \<in> set (table (snd (route_cleanup (env_at 10)
     (admin_request\<lparr> body_days := Some ''abc'' \<rparr>) two_rows))) \<and>
   fst (route_cleanup (env_at 10) (admin_request\<lparr> body_days := Some ''3000000'' \<rparr>) two_rows) =
     Inr (Server_error ''Failed to cleanup audit logs'' ''Internal server error'') \<and>
   old_row \<in> set (table (snd (route_cleanup (env_at 10)
     (admin_request\<lparr> body_days := Some ''3000000'' \<rparr>) two_rows))) \<and>
   recent_row \<in> set (table (snd (route_cleanup (env_at 10)
     (admin_request\<lparr> body_days := Some ''3000000'' \<rparr>) two_rows)))"
  by code_simp

text \<open>
  Claim C6 as stated applies the larger of 30 and the requested age. A request for 40.7
  days is applied as 40 days: the event that is forty and a half days old, younger than
  the requested age, is deleted. A request for \<open>1e21\<close> days, whose text is \<open>1e+21\<close>, is
  read as 1 and applied as 30 days: the event that is forty days old is deleted.
\<close>

theorem requested_age_counterexample:
  "spec_requested ''40.7'' = Some (407 / 10) \<and>
   spec_retention (407 / 10) = 407 / 10 \<and>
   old_row \<in> set (table two_rows) \<and>
   age_days half_day_later old_row = 81 / 2 \<and>
   age_days half_day_later old_row < spec_retention (407 / 10) \<and>
   fst (route_cleanup half_day_later (admin_request\<lparr> body_days := Some ''40.7'' \<rparr>) two_rows) =
     Inr (Cleanup_ok ''Cleaned up audit logs older than 40 days'' 1 (Num 40)) \<and>
   old_row \<notin> set (table (snd (route_cleanup half_day_later
     (admin_request\<lparr> body_days := Some ''40.7'' \<rparr>) two_rows))) \<and>
   spec_requested ''1e+21'' = Some (10 ^ 21) \<and>
   spec_retention (10 ^ 21) = 10 ^ 21 \<and>
   age_days (env_at 10) old_row = 40 \<and>
   age_days (env_at 10) old_row < spec_retention (10 ^ 21) \<and>
   fst (route_cleanup (env_at 10) (admin_request\<lparr> body_days := Some ''1e+21'' \<rparr>) two_rows) =
     Inr (Cleanup_ok ''Cleaned up audit logs older than 30 days'' 1 (Num 30)) \<and>
   old_row \<notin> set (table (snd (route_cleanup (env_at 10)
     (admin_request\<lparr> body_days := Some ''1e+21'' \<rparr>) two_rows)))"
  by code_simp

subsection \<open>CSV cells\<close>

lemma str_includes_single: "str_includes x [c] = (c \<in> set x)"
  by (induction x) auto

lemma replace_quotes_eq: "replace_quotes x = double_quotes x"
  by (induction x) (auto simp: replace_quotes_def)

text \<open>
  Claim C7, as amended. A cell of the export whose value is not \<open>null\<close> is the string
  form of the value, unchanged when it has no comma, double quote or newline, and otherwise
  wrapped in double quotes with every double quote inside doubled; \<open>New York, NY\<close> comes
  out in double quotes. A \<open>null\<close> value gives the empty cell.
\<close>

theorem csv_cell_quoting:
  "csv_cell e CNull = [] \<and>
   (v \<noteq> CNull \<longrightarrow> csv_cell e v = rfc4180 (to_String e v)) \<and>
   (v \<noteq> CNull \<and> \<not> needs_quoting (to_String e v) \<longrightarrow> csv_cell e v = to_String e v) \<and>
   (v \<noteq> CNull \<and> needs_quoting (to_String e v) \<longrightarrow>
      csv_cell e v = CHR 0x22 # double_quotes (to_String e v) @ [CHR 0x22]) \<and>
   csv_cell e (CStr ''New York, NY'') = CHR 0x22 # ''New York, NY'' @ [CHR 0x22]"
  by (simp add: csv_cell_def Let_def str_includes_single replace_quotes_eq needs_quoting_def
      rfc4180_def)

theorem csv_cell_quoting_witness:
  "CStr (''say '' @ [CHR 0x22] @ ''hi'' @ [CHR 0x22]) \<noteq> CNull \<and>
   needs_quoting (to_String (env_at 10) (CStr (''say '' @ [CHR 0x22] @ ''hi'' @ [CHR 0x22]))) \<and>
   csv_cell (env_at 10) (CStr (''say '' @ [CHR 0x22] @ ''hi'' @ [CHR 0x22])) =
     [CHR 0x22] @ ''say '' @ [CHR 0x22, CHR 0x22] @ ''hi'' @ [CHR 0x22, CHR 0x22] @ [CHR 0x22] \<and>
   CBool True \<noteq> CNull \<and> \<not> needs_quoting (to_String (env_at 10) (CBool True)) \<and>
   csv_cell (env_at 10) (CBool True) = ''true''"
  using csv_cell_quoting [of "env_at 10" "CStr (''say '' @ [CHR 0x22] @ ''hi'' @ [CHR 0x22])"]
    csv_cell_quoting [of "env_at 10" "CBool True"]
  by (simp add: needs_quoting_def rfc4180_def)

text \<open>
  Claim C7 as stated covers every field value. The string form of \<open>null\<close> is the text
  \<open>null\<close>, and the cell of a \<open>null\<close> value is empty.
\<close>

theorem null_cell_counterexample:
  "to_String (env_at 10) CNull = ''null'' \<and>
   rfc4180 (to_String (env_at 10) CNull) = ''null'' \<and>
   csv_cell (env_at 10) CNull = [] \<and>
   csv_cell (env_at 10) CNull \<noteq> rfc4180 (to_String (env_at 10) CNull)"
  by (simp add: csv_cell_def rfc4180_def needs_quoting_def)

subsection \<open>The admin gate\<close>

lemma requireAdmin_admin_role:
  "requireAdmin req next s =
     (if admin_role req then next (headers req ''x-user-id'') s else (Inr forbidden, s))"
  by (cases "headers req ''x-user-role''")
     (auto simp: requireAdmin_def admin_role_def forbidden_def truthy_def Let_def)

text \<open>
  Claim C9, as amended. Each of the five operations (list, summary, per-user history,
  cleanup, export) is answered with the administrative-access error, the store neither read
  nor written, unless the role header is supplied and contains the superadmin marker; with
  such a role header the handler runs, whether or not the caller id header is supplied.
\<close>

theorem admin_gate:
  "(\<not> admin_role req \<longrightarrow>
      route_list e req s = (Inr forbidden, s) \<and>
      route_summary e req s = (Inr forbidden, s) \<and>
      route_user e req s = (Inr forbidden, s) \<and>
      route_cleanup e req s = (Inr forbidden, s) \<and>
      route_export e req s = (Inr forbidden, s)) \<and>
   (admin_role req \<longrightarrow>
      route_list e req s = list_handler e req s \<and>
      route_summary e req s = summary_handler e req s \<and>
      route_user e req s = user_handler e req s \<and>
      route_cleanup e req s = cleanup_handler e req (headers req ''x-user-id'') s \<and>
      route_export e req s = export_handler e req (headers req ''x-user-id'') s)"
  by (simp add: route_list_def route_summary_def route_user_def route_cleanup_def
      route_export_def requireAdmin_admin_role)

theorem admin_gate_witness:
  "\<not> admin_role plain_request \<and>
   route_cleanup (env_at 10) plain_request two_rows = (Inr forbidden, two_rows) \<and>
   admin_role role_only_request \<and>
   route_list (env_at 10) role_only_request two_rows =
     list_handler (env_at 10) role_only_request two_rows"
  using admin_gate [of plain_request "env_at 10" two_rows]
    admin_gate [of role_only_request "env_at 10" two_rows]
  by (simp add: admin_role_def plain_request_def role_only_request_def admin_request_def)

text \<open>
  Claim C9 as stated requires both headers. A request with the role header alone is not
  rejected: the list operation sends its two statements to the store.
\<close>

theorem caller_id_not_required_counterexample:
  "headers role_only_request ''x-user-id'' = None \<and>
   \<not> spec_admitted role_only_request \<and>
   fst (route_list (env_at 10) role_only_request two_rows) \<noteq> Inr forbidden \<and>
   queries (snd (route_list (env_at 10) role_only_request two_rows)) = 2"
  by code_simp

subsection \<open>The export's filters\<close>






subsection \<open>The success filter of the list operation\<close>

lemma success_condition:
  "query req ''success'' = Some v \<Longrightarrow> Success_eq (v = ''true'') \<in> set (list_conditions e req)"
  by (simp add: list_conditions_def)

lemma where_clause_member:
  "c \<in> set cs \<Longrightarrow> where_clause cs r \<Longrightarrow> holds c r"
  by (simp add: where_clause_def list_all_iff)

lemma limit_rows_take: "limit_rows n xs = take (nat n) xs"
proof (induction xs arbitrary: n)
  case Nil
  then show ?case by simp
next
  case (Cons x xs)
  show ?case
  proof (cases "n \<le> 0")
    case True
    then show ?thesis by simp
  next
    case False
    then have "nat n = Suc (nat (n - 1))" by simp
    with False Cons show ?thesis by simp
  qed
qed

lemma offset_rows_drop: "offset_rows n xs = drop (nat n) xs"
proof (induction xs arbitrary: n)
  case Nil
  then show ?case by simp
next
  case (Cons x xs)
  show ?case
  proof (cases "n \<le> 0")
    case True
    then show ?thesis by simp
  next
    case False
    then have "nat n = Suc (nat (n - 1))" by simp
    with False Cons show ?thesis by simp
  qed
qed

lemma to_double_small: "\<bar>i\<bar> < 2 ^ 53 \<Longrightarrow> to_double i = Num i"
  by (simp add: to_double_def)

lemma list_try_rows:
  assumes "list_try e req s = (Inr (List_ok rows pg fa), s')"
  shows "set rows \<subseteq> {r \<in> set (table s). where_clause (list_conditions e req) r}"
proof -
  let ?cs = "list_conditions e req"
  from assms have
    "\<exists>n m. rows = take n (drop m (order_desc by_timestamp (filter (where_clause ?cs) (table s))))"
    unfolding list_try_def Let_def limit_rows_take offset_rows_drop
    by (auto simp: db_read_def split: option.splits if_splits prod.splits sum.splits)
  then have "set rows \<subseteq> set (filter (where_clause ?cs) (table s))"
    by (auto dest!: in_set_takeD in_set_dropD)
  then show ?thesis by auto
qed

lemma list_handler_rows:
  assumes "fst (list_handler e req s) = Inr (List_ok rows pg fa)"
  shows "set rows \<subseteq> {r \<in> set (table s). where_clause (list_conditions e req) r}"
proof (cases "list_try e req s")
  case (Pair res s')
  with assms have "res = Inr (List_ok rows pg fa)"
    by (cases res) (auto simp: list_handler_def)
  with Pair list_try_rows show ?thesis by blast
qed

text \<open>
  Claim C10. When the list operation is given a \<open>success\<close> parameter, its condition
  compares the flag with the boolean \<open>parameter = "true"\<close>: every row it returns has the
  flag true for the exact string \<open>true\<close> and false for any other value. Another value is
  not rejected: with no other parameter and a store that serves, the answer is the first
  page of the rows with that flag.
\<close>

theorem list_success_filter:
  "query req ''success'' = Some v \<longrightarrow>
     Success_eq (v = ''true'') \<in> set (list_conditions e req) \<and>
     (\<forall>rows pg fa. fst (list_handler e req s) = Inr (List_ok rows pg fa) \<longrightarrow>
        (\<forall>r \<in> set rows. r \<in> set (table s) \<and> success (ev r) = (v = ''true''))) \<and>
     ((\<forall>k. k \<noteq> ''success'' \<longrightarrow> query req k = None) \<and> faults s = [] \<longrightarrow>
        (\<exists>pg. fst (list_handler e req s) =
           Inr (List_ok
                 (take 50 (order_desc by_timestamp
                    (filter (\<lambda>r. success (ev r) = (v = ''true'')) (table s))))
                 pg (filters_applied req))))"
proof
  assume q: "query req ''success'' = Some v"
  have c: "Success_eq (v = ''true'') \<in> set (list_conditions e req)"
    using q by (rule success_condition)
  have sound: "r \<in> set (table s) \<and> success (ev r) = (v = ''true'')"
    if "fst (list_handler e req s) = Inr (List_ok rows pg fa)" "r \<in> set rows" for rows pg fa r
  proof -
    from list_handler_rows [OF that(1)] that(2)
    have "r \<in> set (table s)" and "where_clause (list_conditions e req) r" by auto
    with where_clause_member [OF c] show ?thesis by auto
  qed
  have only: "\<exists>pg. fst (list_handler e req s) =
           Inr (List_ok
                 (take 50 (order_desc by_timestamp
                    (filter (\<lambda>r. success (ev r) = (v = ''true'')) (table s))))
                 pg (filters_applied req))"
    if others: "\<forall>k. k \<noteq> ''success'' \<longrightarrow> query req k = None" and served: "faults s = []"
  proof -
    have cs: "list_conditions e req = [Success_eq (v = ''true'')]"
      using q others by (simp add: list_conditions_def when_set_def)
    have w: "where_clause [Success_eq (v = ''true'')] = (\<lambda>r. success (ev r) = (v = ''true''))"
      by (rule ext) (simp add: where_clause_def)
    have nums: "parseInt_or 1 (query req ''page'') = Num 1"
      "parseInt_or 50 (query req ''limit'') = Num 50"
      using others by (simp_all add: parseInt_or_def)
    have off: "to_double 0 = Num 0"
      by (simp add: to_double_small)
    show ?thesis
      using served
      by (simp add: list_handler_def list_try_def Let_def cs w nums off bigint_ok_def
          limit_rows_take offset_rows_drop db_read_def next_fault_def issue_def)
  qed
  from c sound only show "Success_eq (v = ''true'') \<in> set (list_conditions e req) \<and>
     (\<forall>rows pg fa. fst (list_handler e req s) = Inr (List_ok rows pg fa) \<longrightarrow>
        (\<forall>r \<in> set rows. r \<in> set (table s) \<and> success (ev r) = (v = ''true''))) \<and>
     ((\<forall>k. k \<noteq> ''success'' \<longrightarrow> query req k = None) \<and> faults s = [] \<longrightarrow>
        (\<exists>pg. fst (list_handler e req s) =
           Inr (List_ok
                 (take 50 (order_desc by_timestamp
                    (filter (\<lambda>r. success (ev r) = (v = ''true'')) (table s))))
                 pg (filters_applied req))))"
    by blast
qed

theorem list_success_filter_witness:
  "query success_other_request ''success'' = Some ''True'' \<and> faults two_rows = [] \<and>
   Success_eq False \<in> set (list_conditions (env_at 10) success_other_request) \<and>
   fst (list_handler (env_at 10) success_other_request two_rows) =
     Inr (List_ok [old_row]
           \<lparr> current_page = Num 1, per_page = Num 50, total_records = Num 1,
             total_pages = Num 1, has_next = False, has_previous = False \<rparr>
           (filters_applied success_other_request)) \<and>
   \<not> success (ev old_row)"
proof -
  have q: "query success_other_request ''success'' = Some ''True''"
    by (simp add: success_other_request_def)
  have r: "fst (list_handler (env_at 10) success_other_request two_rows) =
     Inr (List_ok [old_row]
           \<lparr> current_page = Num 1, per_page = Num 50, total_records = Num 1,
             total_pages = Num 1, has_next = False, has_previous = False \<rparr>
           (filters_applied success_other_request))"
    by code_simp
  have f: "faults two_rows = []" "\<not> success (ev old_row)"
    by (simp_all add: two_rows_def old_row_def sample_event_def)
  from list_success_filter [of success_other_request "''True''" "env_at 10" two_rows] q
  have "Success_eq False \<in> set (list_conditions (env_at 10) success_other_request)"
    by simp
  with q r f show ?thesis by simp
qed

end
